theory Spec2Isabelle
  imports Main "HOL-Library.Word"
begin

section \<open>The Lighter signer bridge (lighter\_signer\_bridge.py)\<close>

text \<open>
  A shallow embedding of \<^verbatim>\<open>src/exchanges/lighter/lighter_signer_bridge.py\<close>: the result
  unwrapper (\<^verbatim>\<open>_unwrap\<close>, \<^verbatim>\<open>_maybe_error\<close>), the client session registry
  (\<^verbatim>\<open>_ensure_client\<close>), the five handlers, the \<^verbatim>\<open>HANDLERS\<close> table and the loop of
  \<^verbatim>\<open>main\<close>.

  Conventions of the model:
  \<^item> a Python \<^verbatim>\<open>str\<close> is a \<open>string\<close> holding its UTF-8 bytes; a \<^verbatim>\<open>str\<close> with an
    unpaired surrogate (\<^verbatim>\<open>json.loads\<close> produces one from an escape such as
    \<^verbatim>\<open>"\ud800"\<close>) is a \<open>string\<close> that is not well-formed UTF-8;
  \<^item> Python \<^verbatim>\<open>bytes\<close> are a \<open>string\<close> too, and a \<^verbatim>\<open>c_char_p\<close> value is a
    \<open>string option\<close> (\<open>None\<close> for the NULL pointer);
  \<^item> a raised exception is the \<open>Inl\<close> of a sum, with the state reached when it was
    raised;
  \<^item> the signer library and \<^verbatim>\<open>json.loads\<close> are parameters of the model. The library
    has a state of its own, of any type \<open>'f\<close>, and every call to it is appended to a
    log in the bridge's state;
  \<^item> JSON numbers with a fraction or an exponent (Python floats) are outside the model.
\<close>

subsection \<open>JSON values and exceptions\<close>

datatype json =
    JNull
  | JBool bool
  | JInt int
  | JStr string
  | JList "json list"
  | JObj "(string \<times> json) list"

text \<open>A Python dictionary with \<^verbatim>\<open>str\<close> keys, in insertion order.\<close>

type_synonym pydict = "(string \<times> json) list"

text \<open>
  The exceptions the bridge can meet. The argument of \<open>KeyError\<close> is the missing key;
  the argument of the others is the message (\<^verbatim>\<open>str(exc)\<close>).
\<close>

datatype py_exc =
    KeyError string
  | TypeError string
  | ValueError string
  | AttributeError string
  | UnicodeEncodeError string
  | UnicodeDecodeError string

text \<open>A text between single quotes, as \<^verbatim>\<open>repr\<close> writes a plain \<^verbatim>\<open>str\<close>.\<close>

definition quoted :: "string \<Rightarrow> string" where
  "quoted s = [CHR 0x27] @ s @ [CHR 0x27]"

text \<open>
  \<^verbatim>\<open>str(exc)\<close>. For a \<^verbatim>\<open>KeyError\<close> it is the \<^verbatim>\<open>repr\<close> of the key, which for the
  keys the bridge looks up (letters only) is the key between single quotes.
\<close>

fun exc_str :: "py_exc \<Rightarrow> string" where
  "exc_str (KeyError k) = quoted k"
| "exc_str (TypeError m) = m"
| "exc_str (ValueError m) = m"
| "exc_str (AttributeError m) = m"
| "exc_str (UnicodeEncodeError m) = m"
| "exc_str (UnicodeDecodeError m) = m"

fun type_name :: "json \<Rightarrow> string" where
  "type_name JNull = ''NoneType''"
| "type_name (JBool _) = ''bool''"
| "type_name (JInt _) = ''int''"
| "type_name (JStr _) = ''str''"
| "type_name (JList _) = ''list''"
| "type_name (JObj _) = ''dict''"

definition dict_has :: "pydict \<Rightarrow> string \<Rightarrow> bool" where
  \<comment> \<open>\<^verbatim>\<open>key in d\<close>\<close>
  "dict_has d k = (map_of d k \<noteq> None)"

definition dict_get :: "pydict \<Rightarrow> string \<Rightarrow> json \<Rightarrow> json" where
  \<comment> \<open>\<^verbatim>\<open>d.get(key, default)\<close>\<close>
  "dict_get d k dflt = (case map_of d k of Some v \<Rightarrow> v | None \<Rightarrow> dflt)"

definition setdefault :: "pydict \<Rightarrow> string \<Rightarrow> json \<Rightarrow> pydict" where
  \<comment> \<open>\<^verbatim>\<open>d.setdefault(key, value)\<close>, for the dictionary it leaves\<close>
  "setdefault d k v = (if dict_has d k then d else d @ [(k, v)])"

subsection \<open>UTF-8: \<^verbatim>\<open>bytes.decode\<close> and \<^verbatim>\<open>str.encode\<close>\<close>

text \<open>
  The well-formed byte sequences of UTF-8 (Unicode, table 3-7): a lead byte fixes the
  number of bytes and the range of the second one; the others are continuation bytes.
\<close>

definition is_ascii :: "char \<Rightarrow> bool" where
  "is_ascii a = ((of_char a :: nat) < 0x80)"

definition cont :: "char \<Rightarrow> bool" where
  "cont c = (0x80 \<le> (of_char c :: nat) \<and> (of_char c :: nat) \<le> 0xBF)"

definition width :: "char \<Rightarrow> nat" where
  \<comment> \<open>the length a lead byte announces; 0 for a byte that cannot lead\<close>
  "width a =
     (let n = (of_char a :: nat) in
      if 0xC2 \<le> n \<and> n \<le> 0xDF then 2
      else if 0xE0 \<le> n \<and> n \<le> 0xEF then 3
      else if 0xF0 \<le> n \<and> n \<le> 0xF4 then 4
      else 0)"

definition second_ok :: "char \<Rightarrow> char \<Rightarrow> bool" where
  \<comment> \<open>the second byte a lead byte admits: no overlong form, no surrogate, nothing
      above U+10FFFF\<close>
  "second_ok a b =
     (let n = (of_char a :: nat); m = (of_char b :: nat) in
      (if n = 0xE0 then 0xA0 else if n = 0xF0 then 0x90 else 0x80) \<le> m \<and>
      m \<le> (if n = 0xED then 0x9F else if n = 0xF4 then 0x8F else 0xBF))"

definition FFFD :: string where
  \<comment> \<open>U+FFFD REPLACEMENT CHARACTER\<close>
  "FFFD = [CHR 0xEF, CHR 0xBF, CHR 0xBD]"

fun utf8_wf :: "string \<Rightarrow> bool" where
  "utf8_wf [] = True"
| "utf8_wf (a # bs) =
     (if is_ascii a then utf8_wf bs
      else if width a = 0 then False
      else
        (case bs of
           [] \<Rightarrow> False
         | b # cs \<Rightarrow>
             if \<not> second_ok a b then False
             else if width a = 2 then utf8_wf cs
             else
               (case cs of
                  [] \<Rightarrow> False
                | c # ds \<Rightarrow>
                    if \<not> cont c then False
                    else if width a = 3 then utf8_wf ds
                    else
                      (case ds of
                         [] \<Rightarrow> False
                       | d # es \<Rightarrow> if \<not> cont d then False else utf8_wf es))))"

text \<open>
  Decoding with \<^verbatim>\<open>errors="replace"\<close>: every maximal ill-formed part (a lead byte with
  the bytes that may follow it, or a single byte otherwise) becomes one U+FFFD.
\<close>

fun utf8_replace :: "string \<Rightarrow> string" where
  "utf8_replace [] = []"
| "utf8_replace (a # bs) =
     (if is_ascii a then a # utf8_replace bs
      else if width a = 0 then FFFD @ utf8_replace bs
      else
        (case bs of
           [] \<Rightarrow> FFFD
         | b # cs \<Rightarrow>
             if \<not> second_ok a b then FFFD @ utf8_replace bs
             else if width a = 2 then a # b # utf8_replace cs
             else
               (case cs of
                  [] \<Rightarrow> FFFD
                | c # ds \<Rightarrow>
                    if \<not> cont c then FFFD @ utf8_replace cs
                    else if width a = 3 then a # b # c # utf8_replace ds
                    else
                      (case ds of
                         [] \<Rightarrow> FFFD
                       | d # es \<Rightarrow>
                           if \<not> cont d then FFFD @ utf8_replace ds
                           else a # b # c # d # utf8_replace es))))"

datatype decode_errors = Strict | Replace

definition decode :: "string \<Rightarrow> decode_errors \<Rightarrow> py_exc + string" where
  \<comment> \<open>\<^verbatim>\<open>b.decode("utf-8", errors=...)\<close>; \<open>Strict\<close> is Python's default\<close>
  "decode bs errors =
     (case errors of
        Replace \<Rightarrow> Inr (utf8_replace bs)
      | Strict \<Rightarrow>
          if utf8_wf bs then Inr bs
          else Inl (UnicodeDecodeError ''utf-8 codec cannot decode bytes''))"

definition encode :: "json \<Rightarrow> py_exc + string" where
  \<comment> \<open>\<^verbatim>\<open>v.encode("utf-8")\<close>: only a \<^verbatim>\<open>str\<close> has the method\<close>
  "encode v =
     (case v of
        JStr s \<Rightarrow>
          if utf8_wf s then Inr s
          else Inl (UnicodeEncodeError ''utf-8 codec cannot encode: surrogates not allowed'')
      | _ \<Rightarrow>
          Inl (AttributeError
            (quoted (type_name v) @ '' object has no attribute '' @ quoted ''encode'')))"

definition string_at :: "string \<Rightarrow> string" where
  \<comment> \<open>\<^verbatim>\<open>ctypes.string_at(ptr)\<close>: the bytes before the first NUL\<close>
  "string_at bs = takeWhile (\<lambda>c. c \<noteq> CHR 0x00) bs"

subsection \<open>The foreign result shapes and \<^verbatim>\<open>_unwrap\<close>\<close>

text \<open>
  The two \<^verbatim>\<open>ctypes.Structure\<close> classes. The field \<^verbatim>\<open>err\<close> of
  \<^verbatim>\<open>SignedTxResponse\<close> is \<open>txErr\<close> here, since two records cannot share a field name.
\<close>

record StrOrErr =
  str :: "string option"
  err :: "string option"

record SignedTxResponse =
  txType :: "8 word"
  txInfo :: "string option"
  txHash :: "string option"
  messageToSign :: "string option"
  txErr :: "string option"

text \<open>What \<^verbatim>\<open>_unwrap\<close> receives; \<^verbatim>\<open>isinstance\<close> tells the two apart.\<close>

datatype foreign_result =
    Simple StrOrErr
  | Composite SignedTxResponse

definition truthy :: "string option \<Rightarrow> bool" where
  \<comment> \<open>\<^verbatim>\<open>if ptr:\<close> on a \<^verbatim>\<open>c_char_p\<close> value: neither \<^verbatim>\<open>None\<close> nor \<^verbatim>\<open>b""\<close>\<close>
  "truthy p = (case p of None \<Rightarrow> False | Some bs \<Rightarrow> bs \<noteq> [])"

definition text_of :: "string option \<Rightarrow> py_exc + string" where
  \<comment> \<open>\<^verbatim>\<open>ctypes.string_at(p).decode("utf-8", errors="replace")\<close>, for a truthy \<open>p\<close>\<close>
  "text_of p = decode (string_at (the p)) Replace"

definition text_or_none :: "string option \<Rightarrow> py_exc + json" where
  \<comment> \<open>\<^verbatim>\<open>ctypes.string_at(p).decode("utf-8", errors="replace") if p else None\<close>\<close>
  "text_or_none p =
     (if truthy p then
        (case text_of p of Inl e \<Rightarrow> Inl e | Inr t \<Rightarrow> Inr (JStr t))
      else Inr JNull)"

fun unwrap :: "foreign_result \<Rightarrow> py_exc + pydict" where
  "unwrap (Composite result) =
     (if truthy (txErr result) then
        (case text_of (txErr result) of
           Inl e \<Rightarrow> Inl e
         | Inr t \<Rightarrow> Inr [(''error'', JStr t)])
      else
        (case text_or_none (txInfo result) of
           Inl e \<Rightarrow> Inl e
         | Inr tx_info \<Rightarrow>
        (case text_or_none (txHash result) of
           Inl e \<Rightarrow> Inl e
         | Inr tx_hash \<Rightarrow>
        (case text_or_none (messageToSign result) of
           Inl e \<Rightarrow> Inl e
         | Inr msg \<Rightarrow>
             Inr [(''result'', tx_info), (''txHash'', tx_hash), (''messageToSign'', msg)]))))"
| "unwrap (Simple result) =
     (if truthy (err result) then
        (case text_of (err result) of
           Inl e \<Rightarrow> Inl e
         | Inr t \<Rightarrow> Inr [(''error'', JStr t)])
      else if truthy (str result) then
        (case text_of (str result) of
           Inl e \<Rightarrow> Inl e
         | Inr t \<Rightarrow> Inr [(''result'', JStr t)])
      else Inr [(''result'', JNull)])"

definition maybe_error :: "string option \<Rightarrow> py_exc + pydict" where
  "maybe_error ptr =
     (if truthy ptr then
        (case text_of ptr of
           Inl e \<Rightarrow> Inl e
         | Inr t \<Rightarrow> Inr [(''error'', JStr t)])
      else Inr [(''result'', JStr ''ok'')])"

text \<open>
  The JSON value a response carries for a \<^verbatim>\<open>c_char_p\<close> field: its text, decoded with
  replacement, when the pointer is not NULL and the text is not empty; \<^verbatim>\<open>null\<close>
  otherwise.
\<close>

definition or_null :: "string option \<Rightarrow> json" where
  "or_null p =
     (case p of
        None \<Rightarrow> JNull
      | Some bs \<Rightarrow> if bs = [] then JNull else JStr (utf8_replace (string_at bs)))"

subsection \<open>Python's \<^verbatim>\<open>int()\<close>, \<^verbatim>\<open>str()\<close>, subscripting and \<^verbatim>\<open>str.strip\<close>\<close>

text \<open>
  The white space of \<^verbatim>\<open>str.strip()\<close> and \<^verbatim>\<open>int()\<close>, by the length of its UTF-8
  form: U+0009 to U+000D, U+001C to U+0020; U+0085, U+00A0; U+1680, U+2000 to U+200A,
  U+2028, U+2029, U+202F, U+205F, U+3000.
\<close>

definition is_space1 :: "char \<Rightarrow> bool" where
  "is_space1 a =
     (let n = (of_char a :: nat) in (9 \<le> n \<and> n \<le> 13) \<or> (28 \<le> n \<and> n \<le> 32))"

definition is_space2 :: "char \<Rightarrow> char \<Rightarrow> bool" where
  "is_space2 a b = (a = CHR 0xC2 \<and> (b = CHR 0x85 \<or> b = CHR 0xA0))"

definition is_space3 :: "char \<Rightarrow> char \<Rightarrow> char \<Rightarrow> bool" where
  "is_space3 a b c =
     ((a = CHR 0xE1 \<and> b = CHR 0x9A \<and> c = CHR 0x80) \<or>
      (a = CHR 0xE2 \<and> b = CHR 0x80 \<and>
        ((0x80 \<le> (of_char c :: nat) \<and> (of_char c :: nat) \<le> 0x8A) \<or>
         c = CHR 0xA8 \<or> c = CHR 0xA9 \<or> c = CHR 0xAF)) \<or>
      (a = CHR 0xE2 \<and> b = CHR 0x81 \<and> c = CHR 0x9F) \<or>
      (a = CHR 0xE3 \<and> b = CHR 0x80 \<and> c = CHR 0x80))"

fun lstrip :: "string \<Rightarrow> string" where
  "lstrip (a # b # c # r) =
     (if is_space1 a then lstrip (b # c # r)
      else if is_space2 a b then lstrip (c # r)
      else if is_space3 a b c then lstrip r
      else a # b # c # r)"
| "lstrip [a, b] =
     (if is_space1 a then lstrip [b] else if is_space2 a b then [] else [a, b])"
| "lstrip [a] = (if is_space1 a then [] else [a])"
| "lstrip [] = []"

text \<open>The same from the right, on the reversed text.\<close>

fun lstrip_rev :: "string \<Rightarrow> string" where
  "lstrip_rev (c # b # a # r) =
     (if is_space1 c then lstrip_rev (b # a # r)
      else if is_space2 b c then lstrip_rev (a # r)
      else if is_space3 a b c then lstrip_rev r
      else c # b # a # r)"
| "lstrip_rev [c, b] =
     (if is_space1 c then lstrip_rev [b] else if is_space2 b c then [] else [c, b])"
| "lstrip_rev [c] = (if is_space1 c then [] else [c])"
| "lstrip_rev [] = []"

definition strip :: "string \<Rightarrow> string" where
  "strip s = rev (lstrip_rev (rev (lstrip s)))"

text \<open>
  \<^verbatim>\<open>int(s)\<close> for a \<^verbatim>\<open>str\<close>: white space around, an optional sign, decimal digits
  with single underscores between them. (Digits outside ASCII, which Python also
  accepts, and its limit on the number of digits are not modelled.)
\<close>

definition is_digit :: "char \<Rightarrow> bool" where
  "is_digit c = (48 \<le> (of_char c :: nat) \<and> (of_char c :: nat) \<le> 57)"

fun parse_digits :: "nat \<Rightarrow> bool \<Rightarrow> string \<Rightarrow> nat option" where
  \<comment> \<open>the value read so far, and whether the last character was a digit\<close>
  "parse_digits acc prev [] = (if prev then Some acc else None)"
| "parse_digits acc prev (c # cs) =
     (if is_digit c then parse_digits (10 * acc + (of_char c - 48)) True cs
      else if c = CHR ''_'' \<and> prev then parse_digits acc False cs
      else None)"

definition parse_int :: "string \<Rightarrow> int option" where
  "parse_int s =
     (case strip s of
        [] \<Rightarrow> None
      | c # cs \<Rightarrow>
          if c = CHR ''-'' then map_option (\<lambda>n. - int n) (parse_digits 0 False cs)
          else if c = CHR ''+'' then map_option int (parse_digits 0 False cs)
          else map_option int (parse_digits 0 False (c # cs)))"

fun py_int :: "json \<Rightarrow> py_exc + int" where
  "py_int (JInt n) = Inr n"
| "py_int (JBool b) = Inr (if b then 1 else 0)"
| "py_int (JStr s) =
     (case parse_int s of
        Some n \<Rightarrow> Inr n
      | None \<Rightarrow> Inl (ValueError (''invalid literal for int() with base 10: '' @ quoted s)))"
| "py_int v =
     Inl (TypeError
       (''int() argument must be a string, a bytes-like object or a real number, not ''
         @ quoted (type_name v)))"

function show_nat :: "nat \<Rightarrow> string" where
  "show_nat n =
     (if n < 10 then [char_of (48 + n)]
      else show_nat (n div 10) @ [char_of (48 + n mod 10)])"
  by pat_completeness auto
termination
  by (relation "measure (\<lambda>n. n)") auto

declare show_nat.simps [simp del]

text \<open>
  \<^verbatim>\<open>str(v)\<close>, as the f-string of \<^verbatim>\<open>main\<close> formats the method. A list or a dictionary
  never gets there (\<^verbatim>\<open>HANDLERS.get\<close> raises on it first), so their text is left empty.
\<close>

fun py_str :: "json \<Rightarrow> string" where
  "py_str JNull = ''None''"
| "py_str (JBool b) = (if b then ''True'' else ''False'')"
| "py_str (JInt n) = (if n < 0 then CHR ''-'' # show_nat (nat (- n)) else show_nat (nat n))"
| "py_str (JStr s) = s"
| "py_str (JList _) = []"
| "py_str (JObj _) = []"

fun subscript :: "json \<Rightarrow> string \<Rightarrow> py_exc + json" where
  \<comment> \<open>\<^verbatim>\<open>v[key]\<close> with a \<^verbatim>\<open>str\<close> key\<close>
  "subscript (JObj d) k = (case map_of d k of Some v \<Rightarrow> Inr v | None \<Rightarrow> Inl (KeyError k))"
| "subscript (JList _) k = Inl (TypeError ''list indices must be integers or slices, not str'')"
| "subscript (JStr _) k = Inl (TypeError (''string indices must be integers, not '' @ quoted ''str''))"
| "subscript v k = Inl (TypeError (quoted (type_name v) @ '' object is not subscriptable''))"

definition contains :: "json \<Rightarrow> string \<Rightarrow> bool" where
  \<comment> \<open>\<^verbatim>\<open>key in params\<close>, where \<open>params\<close> is a dictionary (as it is wherever the
      bridge asks: \<^verbatim>\<open>params["apiKeyIndex"]\<close> has been read before)\<close>
  "contains params k = (case params of JObj d \<Rightarrow> dict_has d k | _ \<Rightarrow> False)"

fun json_get :: "json \<Rightarrow> string \<Rightarrow> json \<Rightarrow> py_exc + json" where
  \<comment> \<open>\<^verbatim>\<open>v.get(key, default)\<close>: only a dictionary has the method\<close>
  "json_get (JObj d) k dflt = Inr (dict_get d k dflt)"
| "json_get v k dflt =
     Inl (AttributeError
       (quoted (type_name v) @ '' object has no attribute '' @ quoted ''get''))"

definition int_param :: "json \<Rightarrow> string \<Rightarrow> py_exc + int" where
  \<comment> \<open>\<^verbatim>\<open>int(params[key])\<close>\<close>
  "int_param params k =
     (case subscript params k of Inl e \<Rightarrow> Inl e | Inr v \<Rightarrow> py_int v)"

definition exc_bind :: "py_exc + 'a \<Rightarrow> ('a \<Rightarrow> py_exc + 'b) \<Rightarrow> py_exc + 'b" where
  \<comment> \<open>evaluate, and go on unless it raised\<close>
  "exc_bind m f = (case m of Inl e \<Rightarrow> Inl e | Inr x \<Rightarrow> f x)"

subsection \<open>The signer library\<close>

type_synonym c_int = "32 word"
type_synonym c_longlong = "64 word"

definition c_int :: "int \<Rightarrow> c_int" where
  \<comment> \<open>\<^verbatim>\<open>ctypes.c_int(n)\<close>: no overflow check, the value wraps\<close>
  "c_int n = word_of_int n"

definition c_longlong :: "int \<Rightarrow> c_longlong" where
  "c_longlong n = word_of_int n"

text \<open>The argument lists, in the order of the \<^verbatim>\<open>argtypes\<close>.\<close>

type_synonym create_client_args = "string \<times> string \<times> c_int \<times> c_int \<times> c_longlong"

type_synonym sign_create_order_args =
  "c_int \<times> c_longlong \<times> c_longlong \<times> c_int \<times> c_int \<times> c_int \<times> c_int \<times> c_int \<times> c_int
    \<times> c_longlong \<times> c_longlong \<times> c_int \<times> c_longlong"

type_synonym sign_cancel_order_args = "c_int \<times> c_longlong \<times> c_longlong \<times> c_int \<times> c_longlong"

type_synonym sign_cancel_all_args = "c_int \<times> c_longlong \<times> c_longlong \<times> c_int \<times> c_longlong"

type_synonym create_auth_token_args = "c_longlong \<times> c_int \<times> c_longlong"

text \<open>
  \<^verbatim>\<open>LIB\<close>: each operation takes its arguments and the library's state, and returns its
  result (of the declared \<^verbatim>\<open>restype\<close>) and the library's new state.
\<close>

record 'f signer_lib =
  CreateClient :: "create_client_args \<Rightarrow> 'f \<Rightarrow> string option \<times> 'f"
  SignCreateOrder :: "sign_create_order_args \<Rightarrow> 'f \<Rightarrow> SignedTxResponse \<times> 'f"
  SignCancelOrder :: "sign_cancel_order_args \<Rightarrow> 'f \<Rightarrow> SignedTxResponse \<times> 'f"
  SignCancelAllOrders :: "sign_cancel_all_args \<Rightarrow> 'f \<Rightarrow> SignedTxResponse \<times> 'f"
  CreateAuthToken :: "create_auth_token_args \<Rightarrow> 'f \<Rightarrow> StrOrErr \<times> 'f"

datatype foreign_call =
    CallCreateClient create_client_args
  | CallSignCreateOrder sign_create_order_args
  | CallSignCancelOrder sign_cancel_order_args
  | CallSignCancelAllOrders sign_cancel_all_args
  | CallCreateAuthToken create_auth_token_args

subsection \<open>The client session registry\<close>

text \<open>
  An entry of \<^verbatim>\<open>_CLIENT_CONFIG\<close>. The endpoint and the key are stored as the request
  gave them, whatever their JSON type; the two numbers are stored after \<^verbatim>\<open>int()\<close>.
\<close>

record signing_config =
  baseUrl :: json
  privateKey :: json
  chainId :: int
  accountIndex :: int

text \<open>
  The state of the process: the two module-level registries, the state of the signer
  library, and the log of the calls made to it.
\<close>

record 'f bridge =
  CLIENT_CONFIG :: "int \<rightharpoonup> signing_config"
  INITIALISED_KEYS :: "int set"
  foreign :: 'f
  calls :: "foreign_call list"

definition call_lib ::
  "('a \<Rightarrow> 'f \<Rightarrow> 'r \<times> 'f) \<Rightarrow> ('a \<Rightarrow> foreign_call) \<Rightarrow> 'a \<Rightarrow> 'f bridge \<Rightarrow> 'r \<times> 'f bridge" where
  \<comment> \<open>one call of an operation of the library, logged\<close>
  "call_lib operation tag args s =
     (case operation args (foreign s) of
        (r, f') \<Rightarrow> (r, s\<lparr>foreign := f', calls := calls s @ [tag args]\<rparr>))"

definition new_config :: "json \<Rightarrow> py_exc + signing_config" where
  \<comment> \<open>the dictionary display of \<^verbatim>\<open>_ensure_client\<close>, evaluated from left to right\<close>
  "new_config params =
     exc_bind (subscript params ''baseUrl'') (\<lambda>base_url.
     exc_bind (subscript params ''privateKey'') (\<lambda>private_key.
     exc_bind (int_param params ''chainId'') (\<lambda>chain_id.
     exc_bind (int_param params ''accountIndex'') (\<lambda>account_index.
       Inr \<lparr>baseUrl = base_url, privateKey = private_key,
            chainId = chain_id, accountIndex = account_index\<rparr>))))"

definition create_client_call :: "signing_config \<Rightarrow> int \<Rightarrow> py_exc + create_client_args" where
  \<comment> \<open>the arguments of \<^verbatim>\<open>LIB.CreateClient\<close>, evaluated from left to right\<close>
  "create_client_call config api_key_index =
     exc_bind (encode (baseUrl config)) (\<lambda>url.
     exc_bind (encode (privateKey config)) (\<lambda>key.
       Inr (url, key, c_int (chainId config), c_int api_key_index,
            c_longlong (accountIndex config))))"

text \<open>
  \<^verbatim>\<open>_ensure_client\<close>, in the two parts its blank line separates. The first reads the
  key and finds the configuration in force: the one built from the parameters and
  stored, when they hold both \<^verbatim>\<open>baseUrl\<close> and \<^verbatim>\<open>privateKey\<close>, and the stored one
  (or \<^verbatim>\<open>None\<close>) otherwise.
\<close>

definition lookup_config ::
  "json \<Rightarrow> 'f bridge \<Rightarrow> (py_exc + int \<times> signing_config option) \<times> 'f bridge" where
  "lookup_config params s =
     (case int_param params ''apiKeyIndex'' of
        Inl e \<Rightarrow> (Inl e, s)
      | Inr api_key_index \<Rightarrow>
          if contains params ''baseUrl'' \<and> contains params ''privateKey'' then
            (case new_config params of
               Inl e \<Rightarrow> (Inl e, s)
             | Inr config \<Rightarrow>
                 (Inr (api_key_index, Some config),
                  s\<lparr>CLIENT_CONFIG := (CLIENT_CONFIG s)(api_key_index \<mapsto> config)\<rparr>))
          else (Inr (api_key_index, CLIENT_CONFIG s api_key_index), s))"

text \<open>The second part: the hard stop without a configuration, and \<^verbatim>\<open>CreateClient\<close>.\<close>

definition connect ::
  "'f signer_lib \<Rightarrow> int \<Rightarrow> signing_config option \<Rightarrow> 'f bridge \<Rightarrow>
   (py_exc + pydict) \<times> 'f bridge" where
  "connect lib api_key_index config s =
     (case config of
        None \<Rightarrow> (Inr [(''error'', JStr ''client_not_initialized'')], s)
      | Some config \<Rightarrow>
     (case create_client_call config api_key_index of
        Inl e \<Rightarrow> (Inl e, s)
      | Inr args \<Rightarrow>
     (case call_lib (CreateClient lib) CallCreateClient args s of
        (err_ptr, s2) \<Rightarrow>
     (case maybe_error err_ptr of
        Inl e \<Rightarrow> (Inl e, s2)
      | Inr outcome \<Rightarrow>
          if dict_has outcome ''error'' then (Inr outcome, s2)
          else (Inr [(''result'', JStr ''ok'')],
                s2\<lparr>INITIALISED_KEYS := insert api_key_index (INITIALISED_KEYS s2)\<rparr>)))))"

definition ensure_client ::
  "'f signer_lib \<Rightarrow> json \<Rightarrow> 'f bridge \<Rightarrow> (py_exc + pydict) \<times> 'f bridge" where
  "ensure_client lib params s =
     (case lookup_config params s of
        (Inl e, s1) \<Rightarrow> (Inl e, s1)
      | (Inr (api_key_index, config), s1) \<Rightarrow> connect lib api_key_index config s1)"

subsection \<open>The handlers\<close>

definition handle_create_client ::
  "'f signer_lib \<Rightarrow> json \<Rightarrow> 'f bridge \<Rightarrow> (py_exc + pydict) \<times> 'f bridge" where
  "handle_create_client lib params s = ensure_client lib params s"

definition sign_create_order_call :: "json \<Rightarrow> py_exc + sign_create_order_args" where
  \<comment> \<open>\<^verbatim>\<open>api_key_index\<close> and \<^verbatim>\<open>expiry\<close> first, then the arguments from left to right\<close>
  "sign_create_order_call params =
     exc_bind (int_param params ''apiKeyIndex'') (\<lambda>api_key_index.
     exc_bind (int_param params ''orderExpiry'') (\<lambda>expiry.
     exc_bind (int_param params ''marketIndex'') (\<lambda>market_index.
     exc_bind (int_param params ''clientOrderIndex'') (\<lambda>client_order_index.
     exc_bind (int_param params ''baseAmount'') (\<lambda>base_amount.
     exc_bind (int_param params ''price'') (\<lambda>price.
     exc_bind (int_param params ''isAsk'') (\<lambda>is_ask.
     exc_bind (int_param params ''orderType'') (\<lambda>order_type.
     exc_bind (int_param params ''timeInForce'') (\<lambda>time_in_force.
     exc_bind (int_param params ''reduceOnly'') (\<lambda>reduce_only.
     exc_bind (int_param params ''triggerPrice'') (\<lambda>trigger_price.
     exc_bind (int_param params ''nonce'') (\<lambda>nonce.
     exc_bind (int_param params ''accountIndex'') (\<lambda>account_index.
       Inr (c_int market_index, c_longlong client_order_index, c_longlong base_amount,
            c_int price, c_int is_ask, c_int order_type, c_int time_in_force,
            c_int reduce_only, c_int trigger_price, c_longlong expiry, c_longlong nonce,
            c_int api_key_index, c_longlong account_index))))))))))))))"

definition sign_cancel_order_call :: "json \<Rightarrow> py_exc + sign_cancel_order_args" where
  "sign_cancel_order_call params =
     exc_bind (int_param params ''apiKeyIndex'') (\<lambda>api_key_index.
     exc_bind (int_param params ''marketIndex'') (\<lambda>market_index.
     exc_bind (int_param params ''orderIndex'') (\<lambda>order_index.
     exc_bind (int_param params ''nonce'') (\<lambda>nonce.
     exc_bind (int_param params ''accountIndex'') (\<lambda>account_index.
       Inr (c_int market_index, c_longlong order_index, c_longlong nonce,
            c_int api_key_index, c_longlong account_index))))))"

definition sign_cancel_all_call :: "json \<Rightarrow> py_exc + sign_cancel_all_args" where
  "sign_cancel_all_call params =
     exc_bind (int_param params ''apiKeyIndex'') (\<lambda>api_key_index.
     exc_bind (int_param params ''timeInForce'') (\<lambda>time_in_force.
     exc_bind (int_param params ''scheduledTime'') (\<lambda>scheduled_time.
     exc_bind (int_param params ''nonce'') (\<lambda>nonce.
     exc_bind (int_param params ''accountIndex'') (\<lambda>account_index.
       Inr (c_int time_in_force, c_longlong scheduled_time, c_longlong nonce,
            c_int api_key_index, c_longlong account_index))))))"

definition create_auth_token_call :: "json \<Rightarrow> py_exc + create_auth_token_args" where
  "create_auth_token_call params =
     exc_bind (int_param params ''apiKeyIndex'') (\<lambda>api_key_index.
     exc_bind (int_param params ''deadlineMs'') (\<lambda>deadline_ms.
     exc_bind (int_param params ''accountIndex'') (\<lambda>account_index.
       Inr (c_longlong deadline_ms, c_int api_key_index, c_longlong account_index))))"

text \<open>
  The body the four privileged handlers share: \<^verbatim>\<open>_ensure_client\<close>, its outcome
  returned if it has an \<^verbatim>\<open>error\<close>; then the arguments, the call, and \<^verbatim>\<open>_unwrap\<close>.
\<close>

definition privileged ::
  "'f signer_lib \<Rightarrow> (json \<Rightarrow> py_exc + 'a) \<Rightarrow> ('a \<Rightarrow> 'f \<Rightarrow> 'r \<times> 'f) \<Rightarrow> ('a \<Rightarrow> foreign_call) \<Rightarrow>
   ('r \<Rightarrow> foreign_result) \<Rightarrow> json \<Rightarrow> 'f bridge \<Rightarrow> (py_exc + pydict) \<times> 'f bridge" where
  "privileged lib arguments operation tag shape params s =
     (case ensure_client lib params s of
        (Inl e, s1) \<Rightarrow> (Inl e, s1)
      | (Inr ensure, s1) \<Rightarrow>
          if dict_has ensure ''error'' then (Inr ensure, s1)
          else
            (case arguments params of
               Inl e \<Rightarrow> (Inl e, s1)
             | Inr args \<Rightarrow>
                 (case call_lib operation tag args s1 of
                    (result, s2) \<Rightarrow> (unwrap (shape result), s2))))"

definition handle_sign_create_order ::
  "'f signer_lib \<Rightarrow> json \<Rightarrow> 'f bridge \<Rightarrow> (py_exc + pydict) \<times> 'f bridge" where
  "handle_sign_create_order lib =
     privileged lib sign_create_order_call (SignCreateOrder lib) CallSignCreateOrder Composite"

definition handle_sign_cancel_order ::
  "'f signer_lib \<Rightarrow> json \<Rightarrow> 'f bridge \<Rightarrow> (py_exc + pydict) \<times> 'f bridge" where
  "handle_sign_cancel_order lib =
     privileged lib sign_cancel_order_call (SignCancelOrder lib) CallSignCancelOrder Composite"

definition handle_sign_cancel_all ::
  "'f signer_lib \<Rightarrow> json \<Rightarrow> 'f bridge \<Rightarrow> (py_exc + pydict) \<times> 'f bridge" where
  "handle_sign_cancel_all lib =
     privileged lib sign_cancel_all_call (SignCancelAllOrders lib) CallSignCancelAllOrders
       Composite"

definition handle_create_auth_token ::
  "'f signer_lib \<Rightarrow> json \<Rightarrow> 'f bridge \<Rightarrow> (py_exc + pydict) \<times> 'f bridge" where
  "handle_create_auth_token lib =
     privileged lib create_auth_token_call (CreateAuthToken lib) CallCreateAuthToken Simple"

definition HANDLERS ::
  "'f signer_lib \<Rightarrow> (string \<times> (json \<Rightarrow> 'f bridge \<Rightarrow> (py_exc + pydict) \<times> 'f bridge)) list" where
  "HANDLERS lib =
     [(''create_client'', handle_create_client lib),
      (''sign_create_order'', handle_sign_create_order lib),
      (''sign_cancel_order'', handle_sign_cancel_order lib),
      (''sign_cancel_all'', handle_sign_cancel_all lib),
      (''create_auth_token'', handle_create_auth_token lib)]"

subsection \<open>The dispatcher and the loop of \<^verbatim>\<open>main\<close>\<close>

definition HANDLERS_get ::
  "'f signer_lib \<Rightarrow> json \<Rightarrow>
   py_exc + (json \<Rightarrow> 'f bridge \<Rightarrow> (py_exc + pydict) \<times> 'f bridge) option" where
  \<comment> \<open>\<^verbatim>\<open>HANDLERS.get(method)\<close>: the key is hashed first, and a list or a dictionary
      cannot be\<close>
  "HANDLERS_get lib method =
     (case method of
        JStr m \<Rightarrow> Inr (map_of (HANDLERS lib) m)
      | JList _ \<Rightarrow> Inl (TypeError (''unhashable type: '' @ quoted ''list''))
      | JObj _ \<Rightarrow> Inl (TypeError (''unhashable type: '' @ quoted ''dict''))
      | _ \<Rightarrow> Inr None)"

text \<open>
  The body of the loop for a parsed line. \<open>Inr\<close> is the response to print; \<open>Inl\<close> is
  an exception raised outside the \<^verbatim>\<open>try\<close>, which nothing catches.
\<close>

definition dispatch ::
  "'f signer_lib \<Rightarrow> json \<Rightarrow> 'f bridge \<Rightarrow> (py_exc + pydict) \<times> 'f bridge" where
  "dispatch lib request s =
     (case json_get request ''id'' JNull of
        Inl e \<Rightarrow> (Inl e, s)
      | Inr req_id \<Rightarrow>
     (case json_get request ''method'' JNull of
        Inl e \<Rightarrow> (Inl e, s)
      | Inr method \<Rightarrow>
     (case json_get request ''params'' (JObj []) of
        Inl e \<Rightarrow> (Inl e, s)
      | Inr params \<Rightarrow>
     (case HANDLERS_get lib method of
        Inl e \<Rightarrow> (Inl e, s)
      | Inr None \<Rightarrow>
          (Inr [(''id'', req_id),
                (''error'', JStr (''unknown_method:'' @ py_str method))], s)
      | Inr (Some handler) \<Rightarrow>
          (case handler params s of
             (Inr outcome, s1) \<Rightarrow> (Inr (setdefault outcome ''id'' req_id), s1)
           | (Inl exc, s1) \<Rightarrow>
               (Inr [(''id'', req_id),
                     (''error'', JStr (''exception:'' @ exc_str exc))], s1))))))"

text \<open>
  The loop over the lines of standard input. \<open>loads\<close> is \<^verbatim>\<open>json.loads\<close>, with the
  text of the \<^verbatim>\<open>JSONDecodeError\<close> for a line it does not parse. The result is the
  list of the responses printed (as dictionaries, before \<^verbatim>\<open>json.dumps\<close>), the final
  state, and the exception that ended the process, if one did.
\<close>

fun main ::
  "(string \<Rightarrow> string + json) \<Rightarrow> 'f signer_lib \<Rightarrow> string list \<Rightarrow> 'f bridge \<Rightarrow>
   pydict list \<times> 'f bridge \<times> py_exc option" where
  "main loads lib [] s = ([], s, None)"
| "main loads lib (line # rest) s =
     (if strip line = [] then main loads lib rest s
      else
        (case loads (strip line) of
           Inl exc \<Rightarrow>
             (case main loads lib rest s of
                (out, fin) \<Rightarrow>
                  ([(''id'', JNull), (''error'', JStr (''invalid_json:'' @ exc))] # out, fin))
         | Inr request \<Rightarrow>
             (case dispatch lib request s of
                (Inl e, s1) \<Rightarrow> ([], s1, Some e)
              | (Inr response, s1) \<Rightarrow>
                  (case main loads lib rest s1 of
                     (out, fin) \<Rightarrow> (response # out, fin)))))"

subsection \<open>The initial state, and inputs to run the model on\<close>

definition initial :: "'f \<Rightarrow> 'f bridge" where
  \<comment> \<open>\<^verbatim>\<open>_INITIALISED_KEYS = set()\<close> and \<^verbatim>\<open>_CLIENT_CONFIG = {}\<close>\<close>
  "initial f = \<lparr>CLIENT_CONFIG = Map.empty, INITIALISED_KEYS = {}, foreign = f, calls = []\<rparr>"

text \<open>
  A signer library without a state, to run the model on: \<^verbatim>\<open>CreateClient\<close> returns the
  given pointer, the three signing operations return the given record, and
  \<^verbatim>\<open>CreateAuthToken\<close> returns a token.
\<close>

definition stub_lib :: "string option \<Rightarrow> SignedTxResponse \<Rightarrow> unit signer_lib" where
  "stub_lib err_ptr tx =
     \<lparr>CreateClient = (\<lambda>args f. (err_ptr, f)),
      SignCreateOrder = (\<lambda>args f. (tx, f)),
      SignCancelOrder = (\<lambda>args f. (tx, f)),
      SignCancelAllOrders = (\<lambda>args f. (tx, f)),
      CreateAuthToken = (\<lambda>args f. (\<lparr>str = Some ''token'', err = None\<rparr>, f))\<rparr>"

definition signed_tx :: SignedTxResponse where
  "signed_tx =
     \<lparr>txType = 15, txInfo = Some ''{}'', txHash = Some ''ab'', messageToSign = None,
      txErr = None\<rparr>"

text \<open>
  A stand-in for \<^verbatim>\<open>json.loads\<close> that knows the given lines and fails on every other
  one.
\<close>

definition loads_of :: "(string \<times> json) list \<Rightarrow> string \<Rightarrow> string + json" where
  "loads_of table line =
     (case map_of table line of
        Some v \<Rightarrow> Inr v
      | None \<Rightarrow> Inl ''Expecting value: line 1 column 1 (char 0)'')"

text \<open>The parameters of the scenarios of the specification (section 8).\<close>

definition client_params :: json where
  "client_params =
     JObj [(''apiKeyIndex'', JInt 0), (''baseUrl'', JStr ''https://x''),
           (''privateKey'', JStr ''0xabc''), (''chainId'', JInt 1), (''accountIndex'', JInt 5)]"

definition cancel_params :: json where
  "cancel_params =
     JObj [(''apiKeyIndex'', JInt 99), (''marketIndex'', JInt 1), (''orderIndex'', JInt 1),
           (''nonce'', JInt 1), (''accountIndex'', JInt 1)]"

text \<open>The state after a successful \<^verbatim>\<open>create_client\<close> with \<open>client_params\<close>, its log emptied.\<close>

definition ready :: "unit bridge" where
  "ready =
     \<lparr>CLIENT_CONFIG = [0 \<mapsto> \<lparr>baseUrl = JStr ''https://x'', privateKey = JStr ''0xabc'',
                              chainId = 1, accountIndex = 5\<rparr>],
      INITIALISED_KEYS = {0}, foreign = (), calls = []\<rparr>"

definition order_params :: json where
  "order_params =
     JObj [(''apiKeyIndex'', JInt 0), (''baseUrl'', JStr ''https://x''),
           (''privateKey'', JStr ''0xabc''), (''chainId'', JInt 1), (''accountIndex'', JInt 5),
           (''marketIndex'', JInt 1), (''orderIndex'', JInt 1), (''nonce'', JInt 1)]"

text \<open>
  A line of white space, and the lines the stand-in for \<^verbatim>\<open>json.loads\<close> knows in the
  runs below.
\<close>

definition blank_line :: string where
  "blank_line = [CHR 0x20, CHR 0x09, CHR 0x0A]"

definition dq :: "string \<Rightarrow> string" where
  \<comment> \<open>a text between double quotes, as JSON writes a string\<close>
  "dq s = [CHR 0x22] @ s @ [CHR 0x22]"

definition line_list_method :: string where
  \<comment> \<open>a request with id 7 whose method is the empty list\<close>
  "line_list_method = ''{'' @ dq ''id'' @ '': 7, '' @ dq ''method'' @ '': []}''"

definition line_ping :: string where
  \<comment> \<open>a request with id 8 for the method ping, which no handler has\<close>
  "line_ping = ''{'' @ dq ''id'' @ '': 8, '' @ dq ''method'' @ '': '' @ dq ''ping'' @ ''}''"

definition request_lines :: "(string \<times> json) list" where
  "request_lines =
     [(''{}'', JObj []),
      (''42'', JInt 42),
      (line_list_method, JObj [(''id'', JInt 7), (''method'', JList [])]),
      (line_ping, JObj [(''id'', JInt 8), (''method'', JStr ''ping'')])]"

text \<open>
  A request that rotates the credentials of key 0 and gets the chain id wrong, and a
  request that cancels an order, with the response it gets from \<open>stub_lib\<close>.
\<close>

definition rotate_params :: json where
  "rotate_params =
     JObj [(''apiKeyIndex'', JInt 0), (''baseUrl'', JStr ''https://y''),
           (''privateKey'', JStr ''0xdef''), (''chainId'', JStr ''mainnet''),
           (''accountIndex'', JInt 6)]"

definition rotate_request :: pydict where
  "rotate_request =
     [(''id'', JStr ''r1''), (''method'', JStr ''create_client''), (''params'', rotate_params)]"

definition cancel_request :: json where
  "cancel_request =
     JObj [(''id'', JInt 2), (''method'', JStr ''sign_cancel_order''), (''params'', order_params)]"

definition cancel_response :: pydict where
  "cancel_response =
     [(''result'', JStr ''{}''), (''txHash'', JStr ''ab''), (''messageToSign'', JNull),
      (''id'', JInt 2)]"

subsection \<open>The keys of a response\<close>

text \<open>
  The lists of keys a printed response can have, in the order \<^verbatim>\<open>json.dumps\<close> writes
  them: an error of the dispatcher; the outcome of a handler, with the \<^verbatim>\<open>id\<close> that
  \<^verbatim>\<open>setdefault\<close> adds last.
\<close>

definition response_keys :: "string list list" where
  "response_keys =
     [[''id'', ''error''], [''error'', ''id''], [''result'', ''id''],
      [''result'', ''txHash'', ''messageToSign'', ''id'']]"

section \<open>The result unwrapper\<close>

subsection \<open>Decoding with replacement\<close>

lemma utf8_wf_FFFD: "utf8_wf (FFFD @ xs) = utf8_wf xs"
  by (simp add: FFFD_def is_ascii_def width_def second_ok_def cont_def)

lemma utf8_wf_FFFD_only: "utf8_wf FFFD"
  using utf8_wf_FFFD [of "[]"] by simp

text \<open>Whatever the bytes, the decoded text is well-formed.\<close>

lemma utf8_wf_replace: "utf8_wf (utf8_replace bs)"
proof (induction "length bs" arbitrary: bs rule: less_induct)
  case less
  show ?case
  proof (cases bs)
    case Nil
    then show ?thesis by simp
  next
    case (Cons a r)
    have ih: "\<And>ys. length ys \<le> length r \<Longrightarrow> utf8_wf (utf8_replace ys)"
      using less Cons by simp
    show ?thesis
      unfolding Cons
      apply (subst utf8_replace.simps)
      apply (simp del: utf8_replace.simps
          add: ih utf8_wf_FFFD utf8_wf_FFFD_only split: list.split)
      done
  qed
qed

text \<open>Well-formed bytes decode to themselves: nothing is replaced.\<close>

lemma utf8_replace_wf: "utf8_wf bs \<Longrightarrow> utf8_replace bs = bs"
proof (induction "length bs" arbitrary: bs rule: less_induct)
  case less
  show ?case
  proof (cases bs)
    case Nil
    then show ?thesis by simp
  next
    case (Cons a r)
    have ih: "\<And>ys. length ys \<le> length r \<Longrightarrow> utf8_wf ys \<Longrightarrow> utf8_replace ys = ys"
      using less(1) Cons by simp
    have wf: "utf8_wf (a # r)"
      using less(2) Cons by simp
    show ?thesis
      unfolding Cons
      using wf
      apply (subst utf8_replace.simps)
      apply (subst (asm) utf8_wf.simps)
      apply (auto simp del: utf8_replace.simps utf8_wf.simps simp add: ih
          split: list.splits if_splits)
      done
  qed
qed

lemma decode_Replace: "decode bs Replace = Inr (utf8_replace bs)"
  by (simp add: decode_def)

lemma decode_Strict_raises:
  "decode [CHR 0xFF] Strict = Inl (UnicodeDecodeError ''utf-8 codec cannot decode bytes'')"
  by (simp add: decode_def is_ascii_def width_def)

lemma text_of_eq: "text_of p = Inr (utf8_replace (string_at (the p)))"
  by (simp add: text_of_def decode_Replace)

subsection \<open>The shape of the outcome\<close>

lemma text_or_none_eq: "text_or_none p = Inr (or_null p)"
  by (cases p) (simp_all add: text_or_none_def or_null_def truthy_def text_of_eq)

lemma truthy_or_null: "truthy p \<Longrightarrow> JStr (utf8_replace (string_at (the p))) = or_null p"
  by (cases p) (simp_all add: or_null_def truthy_def)

lemma not_truthy_or_null: "\<not> truthy p \<Longrightarrow> or_null p = JNull"
  by (cases p) (simp_all add: or_null_def truthy_def)

lemma unwrap_Simple:
  "unwrap (Simple r) =
     Inr (if truthy (err r) then [(''error'', or_null (err r))]
          else [(''result'', or_null (str r))])"
  by (simp add: text_of_eq truthy_or_null not_truthy_or_null)

lemma unwrap_Composite:
  "unwrap (Composite r) =
     Inr (if truthy (txErr r) then [(''error'', or_null (txErr r))]
          else [(''result'', or_null (txInfo r)), (''txHash'', or_null (txHash r)),
                (''messageToSign'', or_null (messageToSign r))])"
  by (simp add: text_of_eq text_or_none_eq truthy_or_null)

lemma maybe_error_eq:
  "maybe_error p =
     Inr (if truthy p then [(''error'', or_null p)] else [(''result'', JStr ''ok'')])"
  by (simp add: maybe_error_def text_of_eq truthy_or_null)

text \<open>
  Claim C4, as amended. A simple result with a non-empty error gives \<^verbatim>\<open>{"error": text}\<close>
  alone; otherwise it gives \<^verbatim>\<open>{"result": value}\<close> when the value is present and not
  empty, and \<^verbatim>\<open>{"result": null}\<close> when the value is absent or empty. A composite result
  with a non-empty error gives \<^verbatim>\<open>{"error": text}\<close> alone; otherwise it gives the three
  keys \<^verbatim>\<open>result\<close>, \<^verbatim>\<open>txHash\<close>, \<^verbatim>\<open>messageToSign\<close>, each the field's text, or
  \<^verbatim>\<open>null\<close> when the field is absent or empty. The outcome does not depend on
  \<^verbatim>\<open>txType\<close>.
\<close>

theorem unwrap_normalises:
  "unwrap (Simple \<lparr>str = v, err = e\<rparr>) =
     Inr (if truthy e then [(''error'', or_null e)] else [(''result'', or_null v)]) \<and>
   unwrap (Composite \<lparr>txType = t, txInfo = i, txHash = h, messageToSign = m, txErr = e\<rparr>) =
     Inr (if truthy e then [(''error'', or_null e)]
          else [(''result'', or_null i), (''txHash'', or_null h),
                (''messageToSign'', or_null m)])"
  by (simp add: unwrap_Simple unwrap_Composite del: unwrap.simps)

text \<open>
  Claim C4 as the specification words it fails for a value that is present and empty:
  \<^verbatim>\<open>if result.str:\<close> is false for \<^verbatim>\<open>b""\<close>, so the outcome is \<^verbatim>\<open>{"result": null}\<close> and
  not \<^verbatim>\<open>{"result": ""}\<close>.
\<close>

theorem unwrap_empty_value_counterexample:
  "unwrap (Simple \<lparr>str = Some [], err = None\<rparr>) = Inr [(''result'', JNull)] \<and>
   unwrap (Simple \<lparr>str = Some [], err = None\<rparr>) \<noteq> Inr [(''result'', JStr [])]"
  by (simp add: truthy_def)

text \<open>
  Claim C5. \<^verbatim>\<open>_unwrap\<close> and \<^verbatim>\<open>_maybe_error\<close> return an outcome for every foreign
  result: no branch of theirs raises. Decoding with \<^verbatim>\<open>errors="replace"\<close> returns a text
  for every byte sequence, ill-formed ones included, and that text is well-formed.
\<close>

theorem unwrap_total:
  "(\<exists>d. unwrap r = Inr d) \<and> (\<exists>d. maybe_error p = Inr d) \<and>
   (\<exists>t. decode bs Replace = Inr t \<and> utf8_wf t)"
proof -
  have "\<exists>d. unwrap r = Inr d"
    by (cases r) (simp_all only: unwrap_Simple unwrap_Composite sum.inject simp_thms)
  moreover have "\<exists>d. maybe_error p = Inr d"
    by (simp only: maybe_error_eq sum.inject simp_thms)
  moreover have "\<exists>t. decode bs Replace = Inr t \<and> utf8_wf t"
    by (simp add: decode_Replace utf8_wf_replace)
  ultimately show ?thesis by blast
qed

section \<open>The client session registry\<close>

text \<open>The definitions to unfold when the model is run on a concrete input.\<close>

lemmas run_defs =
  dispatch_def HANDLERS_get_def HANDLERS_def handle_create_client_def
  handle_sign_create_order_def handle_sign_cancel_order_def handle_sign_cancel_all_def
  handle_create_auth_token_def privileged_def ensure_client_def lookup_config_def
  connect_def create_client_call_def new_config_def int_param_def exc_bind_def
  contains_def dict_has_def dict_get_def setdefault_def call_lib_def stub_lib_def
  signed_tx_def maybe_error_def truthy_def text_of_def text_or_none_def decode_def
  string_at_def encode_def is_ascii_def initial_def sign_cancel_order_call_def c_int_def
  c_longlong_def client_params_def cancel_params_def order_params_def quoted_def
  loads_of_def

subsection \<open>The hard stop without a configuration\<close>

lemma lookup_config_absent:
  assumes "int_param params ''apiKeyIndex'' = Inr k"
      and "\<not> (contains params ''baseUrl'' \<and> contains params ''privateKey'')"
  shows "lookup_config params s = (Inr (k, CLIENT_CONFIG s k), s)"
  using assms by (auto simp: lookup_config_def)

lemma ensure_client_not_initialized:
  assumes "int_param params ''apiKeyIndex'' = Inr k"
      and "\<not> (contains params ''baseUrl'' \<and> contains params ''privateKey'')"
      and "CLIENT_CONFIG s k = None"
  shows "ensure_client lib params s = (Inr [(''error'', JStr ''client_not_initialized'')], s)"
  using assms by (simp add: ensure_client_def lookup_config_absent connect_def)

lemma privileged_not_initialized:
  assumes "int_param params ''apiKeyIndex'' = Inr k"
      and "\<not> (contains params ''baseUrl'' \<and> contains params ''privateKey'')"
      and "CLIENT_CONFIG s k = None"
  shows "privileged lib arguments operation tag shape params s =
           (Inr [(''error'', JStr ''client_not_initialized'')], s)"
  using ensure_client_not_initialized [OF assms]
  by (simp add: privileged_def dict_has_def)

lemma HANDLERS_cases:
  assumes "map_of (HANDLERS lib) m = Some handler"
  shows "(m = ''create_client'' \<and> handler = handle_create_client lib) \<or>
         (m = ''sign_create_order'' \<and> handler = handle_sign_create_order lib) \<or>
         (m = ''sign_cancel_order'' \<and> handler = handle_sign_cancel_order lib) \<or>
         (m = ''sign_cancel_all'' \<and> handler = handle_sign_cancel_all lib) \<or>
         (m = ''create_auth_token'' \<and> handler = handle_create_auth_token lib)"
  using assms by (simp add: HANDLERS_def split: if_splits)

lemma handler_not_initialized:
  assumes "map_of (HANDLERS lib) m = Some handler"
      and "int_param params ''apiKeyIndex'' = Inr k"
      and "\<not> (contains params ''baseUrl'' \<and> contains params ''privateKey'')"
      and "CLIENT_CONFIG s k = None"
  shows "handler params s = (Inr [(''error'', JStr ''client_not_initialized'')], s)"
  using HANDLERS_cases [OF assms(1)]
  by (auto simp: handle_create_client_def handle_sign_create_order_def
      handle_sign_cancel_order_def handle_sign_cancel_all_def handle_create_auth_token_def
      privileged_not_initialized [OF assms(2-4)] ensure_client_not_initialized [OF assms(2-4)])

text \<open>
  Claim C1. A privileged handler (\<^verbatim>\<open>sign_create_order\<close>, \<^verbatim>\<open>sign_cancel_order\<close>,
  \<^verbatim>\<open>sign_cancel_all\<close>, \<^verbatim>\<open>create_auth_token\<close>) called for a key \<open>k\<close> with no stored
  configuration, with parameters that do not hold both \<^verbatim>\<open>baseUrl\<close> and
  \<^verbatim>\<open>privateKey\<close>, returns \<^verbatim>\<open>{"error": "client_not_initialized"}\<close> and leaves the whole
  state as it was: the log of foreign calls has no new entry (no signing operation, no
  \<^verbatim>\<open>CreateClient\<close>), and the library's state is untouched.
\<close>

theorem privileged_needs_config:
  assumes "m \<in> set [''sign_create_order'', ''sign_cancel_order'', ''sign_cancel_all'',
                     ''create_auth_token'']"
      and "map_of (HANDLERS lib) m = Some handler"
      and "int_param params ''apiKeyIndex'' = Inr k"
      and "CLIENT_CONFIG s k = None"
      and "\<not> (contains params ''baseUrl'' \<and> contains params ''privateKey'')"
  shows "handler params s = (Inr [(''error'', JStr ''client_not_initialized'')], s) \<and>
         calls (snd (handler params s)) = calls s \<and>
         foreign (snd (handler params s)) = foreign s"
  using handler_not_initialized [OF assms(2,3,5,4)] by simp

text \<open>
  The scenario of the specification: \<^verbatim>\<open>sign_cancel_order\<close> for key 99, with no
  \<^verbatim>\<open>create_client\<close> before.
\<close>

theorem privileged_needs_config_witness:
  "''sign_cancel_order'' \<in> set [''sign_create_order'', ''sign_cancel_order'',
      ''sign_cancel_all'', ''create_auth_token''] \<and>
   map_of (HANDLERS (stub_lib None signed_tx)) ''sign_cancel_order'' =
     Some (handle_sign_cancel_order (stub_lib None signed_tx)) \<and>
   int_param cancel_params ''apiKeyIndex'' = Inr 99 \<and>
   CLIENT_CONFIG (initial ()) 99 = None \<and>
   \<not> (contains cancel_params ''baseUrl'' \<and> contains cancel_params ''privateKey'') \<and>
   handle_sign_cancel_order (stub_lib None signed_tx) cancel_params (initial ()) =
     (Inr [(''error'', JStr ''client_not_initialized'')], initial ()) \<and>
   calls (snd (handle_sign_cancel_order (stub_lib None signed_tx) cancel_params (initial ())))
     = []"
proof -
  let ?lib = "stub_lib None signed_tx"
  have h1: "''sign_cancel_order'' \<in> set [''sign_create_order'', ''sign_cancel_order'',
      ''sign_cancel_all'', ''create_auth_token'']"
    by simp
  have h2: "map_of (HANDLERS ?lib) ''sign_cancel_order'' = Some (handle_sign_cancel_order ?lib)"
    by (simp add: HANDLERS_def)
  have h3: "int_param cancel_params ''apiKeyIndex'' = Inr 99"
    by (simp add: int_param_def cancel_params_def)
  have h4: "CLIENT_CONFIG (initial ()) 99 = None"
    by (simp add: initial_def)
  have h5: "\<not> (contains cancel_params ''baseUrl'' \<and> contains cancel_params ''privateKey'')"
    by (simp add: contains_def cancel_params_def dict_has_def)
  show ?thesis
    using privileged_needs_config [OF h1 h2 h3 h4 h5] h1 h2 h3 h4 h5
    by (simp add: initial_def)
qed

subsection \<open>\<^verbatim>\<open>CreateClient\<close> on every call\<close>

lemma connect_Some:
  assumes "create_client_call cfg k = Inr args"
      and "CreateClient lib args (foreign s) = (err_ptr, f')"
  shows "connect lib k (Some cfg) s =
     (if truthy err_ptr then
        (Inr [(''error'', or_null err_ptr)],
         s\<lparr>foreign := f', calls := calls s @ [CallCreateClient args]\<rparr>)
      else
        (Inr [(''result'', JStr ''ok'')],
         s\<lparr>foreign := f', calls := calls s @ [CallCreateClient args],
           INITIALISED_KEYS := insert k (INITIALISED_KEYS s)\<rparr>))"
  using assms by (simp add: connect_def call_lib_def maybe_error_eq dict_has_def)

lemma create_client_call_strings:
  assumes "baseUrl cfg = JStr url" "utf8_wf url" "privateKey cfg = JStr key" "utf8_wf key"
  shows "create_client_call cfg k =
           Inr (url, key, c_int (chainId cfg), c_int k, c_longlong (accountIndex cfg))"
  using assms by (simp add: create_client_call_def encode_def exc_bind_def)

text \<open>
  Claim C2, as amended. Whenever the first part of \<^verbatim>\<open>_ensure_client\<close> ends with a
  configuration in force for the key (newly stored or found, and whether or not the key
  is in \<^verbatim>\<open>_INITIALISED_KEYS\<close> already), and the endpoint and the private key of that
  configuration are strings that UTF-8 can encode, \<^verbatim>\<open>CreateClient\<close> is called exactly
  once, with the encoded endpoint and key, the chain id, the key and the account index.
  If it returns a non-empty error text, the outcome is \<^verbatim>\<open>{"error": text}\<close> and the key
  is not added to \<^verbatim>\<open>_INITIALISED_KEYS\<close>; if it returns NULL or an empty text, the key is
  added and the outcome is \<^verbatim>\<open>{"result": "ok"}\<close>.
\<close>

theorem ensure_client_creates_client:
  assumes "lookup_config params s = (Inr (k, Some cfg), s1)"
      and "baseUrl cfg = JStr url" and "utf8_wf url"
      and "privateKey cfg = JStr key" and "utf8_wf key"
      and "CreateClient lib (url, key, c_int (chainId cfg), c_int k,
             c_longlong (accountIndex cfg)) (foreign s1) = (err_ptr, f')"
  shows "ensure_client lib params s =
     (if truthy err_ptr then
        (Inr [(''error'', or_null err_ptr)],
         s1\<lparr>foreign := f',
            calls := calls s1 @ [CallCreateClient (url, key, c_int (chainId cfg), c_int k,
                       c_longlong (accountIndex cfg))]\<rparr>)
      else
        (Inr [(''result'', JStr ''ok'')],
         s1\<lparr>foreign := f',
            calls := calls s1 @ [CallCreateClient (url, key, c_int (chainId cfg), c_int k,
                       c_longlong (accountIndex cfg))],
            INITIALISED_KEYS := insert k (INITIALISED_KEYS s1)\<rparr>))"
proof -
  have args: "create_client_call cfg k =
      Inr (url, key, c_int (chainId cfg), c_int k, c_longlong (accountIndex cfg))"
    using assms(2-5) by (rule create_client_call_strings)
  show ?thesis
    using connect_Some [OF args assms(6)] assms(1)
    by (simp add: ensure_client_def)
qed

text \<open>
  A second \<^verbatim>\<open>create_client\<close> for key 0, already initialised, whose \<^verbatim>\<open>CreateClient\<close>
  fails: the call is made again, and the key stays in the set.
\<close>

theorem ensure_client_creates_client_witness:
  "lookup_config client_params ready =
     (Inr (0, Some \<lparr>baseUrl = JStr ''https://x'', privateKey = JStr ''0xabc'', chainId = 1,
                    accountIndex = 5\<rparr>), ready) \<and>
   utf8_wf ''https://x'' \<and> utf8_wf ''0xabc'' \<and>
   CreateClient (stub_lib (Some ''boom'') signed_tx) (''https://x'', ''0xabc'', 1, 0, 5) () =
     (Some ''boom'', ()) \<and>
   ensure_client (stub_lib (Some ''boom'') signed_tx) client_params ready =
     (Inr [(''error'', JStr ''boom'')],
      ready\<lparr>calls := [CallCreateClient (''https://x'', ''0xabc'', 1, 0, 5)]\<rparr>)"
proof -
  let ?cfg = "\<lparr>baseUrl = JStr ''https://x'', privateKey = JStr ''0xabc'', chainId = 1,
               accountIndex = 5\<rparr>"
  have h1: "lookup_config client_params ready = (Inr (0, Some ?cfg), ready)"
    by (simp add: run_defs ready_def)
  have h2: "baseUrl ?cfg = JStr ''https://x''" by simp
  have h3: "utf8_wf ''https://x''" by (simp add: is_ascii_def)
  have h4: "privateKey ?cfg = JStr ''0xabc''" by simp
  have h5: "utf8_wf ''0xabc''" by (simp add: is_ascii_def)
  have h6: "CreateClient (stub_lib (Some ''boom'') signed_tx)
      (''https://x'', ''0xabc'', c_int (chainId ?cfg), c_int 0, c_longlong (accountIndex ?cfg))
      (foreign ready) = (Some ''boom'', ())"
    by (simp add: stub_lib_def)
  show ?thesis
    using ensure_client_creates_client [OF h1 h2 h3 h4 h5 h6] h1 h3 h5 h6
    by (simp add: c_int_def c_longlong_def truthy_def or_null_def string_at_def ready_def
        is_ascii_def)
qed

text \<open>
  Claim C2 as the specification words it fails twice. A \<^verbatim>\<open>CreateClient\<close> that returns
  a pointer to an empty text (not NULL) counts as a success: \<^verbatim>\<open>if ptr:\<close> is false for
  \<^verbatim>\<open>b""\<close>, the key is added and the outcome is \<^verbatim>\<open>{"result": "ok"}\<close>. And a
  configuration whose endpoint is not a string (here the number 5) is stored, but
  \<^verbatim>\<open>.encode\<close> raises before \<^verbatim>\<open>CreateClient\<close> is called.
\<close>

theorem ensure_client_counterexample:
  "ensure_client (stub_lib (Some []) signed_tx) client_params (initial ()) =
     (Inr [(''result'', JStr ''ok'')],
      \<lparr>CLIENT_CONFIG = [0 \<mapsto> \<lparr>baseUrl = JStr ''https://x'', privateKey = JStr ''0xabc'',
                               chainId = 1, accountIndex = 5\<rparr>],
       INITIALISED_KEYS = {0}, foreign = (),
       calls = [CallCreateClient (''https://x'', ''0xabc'', 1, 0, 5)]\<rparr>) \<and>
   ensure_client (stub_lib None signed_tx)
       (JObj [(''apiKeyIndex'', JInt 0), (''baseUrl'', JInt 5), (''privateKey'', JStr ''0xabc''),
              (''chainId'', JInt 1), (''accountIndex'', JInt 5)]) (initial ()) =
     (Inl (AttributeError (quoted ''int'' @ '' object has no attribute '' @ quoted ''encode'')),
      \<lparr>CLIENT_CONFIG = [0 \<mapsto> \<lparr>baseUrl = JInt 5, privateKey = JStr ''0xabc'',
                               chainId = 1, accountIndex = 5\<rparr>],
       INITIALISED_KEYS = {}, foreign = (), calls = []\<rparr>)"
  by (simp add: run_defs)

subsection \<open>An overwrite that cannot be completed\<close>

lemma subscript_contains: "subscript params k = Inr v \<Longrightarrow> contains params k"
  by (cases params) (auto simp: contains_def dict_has_def split: option.splits)

lemma new_config_raises:
  assumes "isl (int_param params ''chainId'') \<or> isl (int_param params ''accountIndex'')"
  shows "isl (new_config params)"
  using assms
  by (auto simp: new_config_def exc_bind_def isl_def split: sum.splits)

lemma lookup_config_raises:
  assumes "contains params ''baseUrl''" and "contains params ''privateKey''"
      and "isl (int_param params ''chainId'') \<or> isl (int_param params ''accountIndex'')"
  shows "\<exists>e. lookup_config params s = (Inl e, s)"
  using assms(1,2) new_config_raises [OF assms(3)]
  by (auto simp: lookup_config_def isl_def split: sum.splits)

lemma ensure_client_raises:
  assumes "contains params ''baseUrl''" and "contains params ''privateKey''"
      and "isl (int_param params ''chainId'') \<or> isl (int_param params ''accountIndex'')"
  shows "\<exists>e. ensure_client lib params s = (Inl e, s)"
  using lookup_config_raises [OF assms, of s]
  by (auto simp: ensure_client_def)

lemma privileged_raises:
  assumes "contains params ''baseUrl''" and "contains params ''privateKey''"
      and "isl (int_param params ''chainId'') \<or> isl (int_param params ''accountIndex'')"
  shows "\<exists>e. privileged lib arguments operation tag shape params s = (Inl e, s)"
  using ensure_client_raises [OF assms, of lib s]
  by (auto simp: privileged_def)

lemma handler_raises:
  assumes "map_of (HANDLERS lib) m = Some handler"
      and "contains params ''baseUrl''" and "contains params ''privateKey''"
      and "isl (int_param params ''chainId'') \<or> isl (int_param params ''accountIndex'')"
  shows "\<exists>e. handler params s = (Inl e, s)"
  using HANDLERS_cases [OF assms(1)]
  by (auto simp: handle_create_client_def handle_sign_create_order_def
      handle_sign_cancel_order_def handle_sign_cancel_all_def handle_create_auth_token_def
      privileged_raises [OF assms(2-4)] ensure_client_raises [OF assms(2-4)])

text \<open>The dispatcher on a JSON object, and on a request for a known method.\<close>

lemma dispatch_JObj:
  "dispatch lib (JObj r) s =
     (case HANDLERS_get lib (dict_get r ''method'' JNull) of
        Inl e \<Rightarrow> (Inl e, s)
      | Inr None \<Rightarrow>
          (Inr [(''id'', dict_get r ''id'' JNull),
                (''error'', JStr (''unknown_method:'' @ py_str (dict_get r ''method'' JNull)))],
           s)
      | Inr (Some handler) \<Rightarrow>
          (case handler (dict_get r ''params'' (JObj [])) s of
             (Inr outcome, s1) \<Rightarrow>
               (Inr (setdefault outcome ''id'' (dict_get r ''id'' JNull)), s1)
           | (Inl exc, s1) \<Rightarrow>
               (Inr [(''id'', dict_get r ''id'' JNull),
                     (''error'', JStr (''exception:'' @ exc_str exc))], s1)))"
  by (simp add: dispatch_def)

lemma dispatch_handler:
  assumes "dict_get request ''method'' JNull = JStr m"
      and "map_of (HANDLERS lib) m = Some handler"
  shows "dispatch lib (JObj request) s =
     (case handler (dict_get request ''params'' (JObj [])) s of
        (Inr outcome, s1) \<Rightarrow>
          (Inr (setdefault outcome ''id'' (dict_get request ''id'' JNull)), s1)
      | (Inl exc, s1) \<Rightarrow>
          (Inr [(''id'', dict_get request ''id'' JNull),
                (''error'', JStr (''exception:'' @ exc_str exc))], s1))"
  using assms by (simp add: dispatch_JObj HANDLERS_get_def)

text \<open>
  Claim C9. When the parameters hold both \<^verbatim>\<open>baseUrl\<close> and \<^verbatim>\<open>privateKey\<close>, and
  \<^verbatim>\<open>chainId\<close> or \<^verbatim>\<open>accountIndex\<close> is missing or is not integer-coercible
  (\<^verbatim>\<open>int(params[...])\<close> raises), every handler raises and leaves the whole state as it
  was: the stored configurations, \<^verbatim>\<open>_INITIALISED_KEYS\<close>, and the log of foreign calls.
  The dispatcher answers with the request's id and \<^verbatim>\<open>"exception:"\<close> followed by the
  text of the exception.
\<close>

theorem overwrite_is_atomic:
  assumes "map_of (HANDLERS lib) m = Some handler"
      and "contains params ''baseUrl''" and "contains params ''privateKey''"
      and "isl (int_param params ''chainId'') \<or> isl (int_param params ''accountIndex'')"
      and "dict_get request ''method'' JNull = JStr m"
      and "dict_get request ''params'' (JObj []) = params"
  shows "\<exists>e. handler params s = (Inl e, s) \<and>
             dispatch lib (JObj request) s =
               (Inr [(''id'', dict_get request ''id'' JNull),
                     (''error'', JStr (''exception:'' @ exc_str e))], s)"
proof -
  from handler_raises [OF assms(1-4)] obtain e where e: "handler params s = (Inl e, s)"
    by blast
  then show ?thesis
    using dispatch_handler [OF assms(5,1), of s] assms(6) by simp
qed

text \<open>
  Key 0 has a configuration and is initialised; a \<^verbatim>\<open>create_client\<close> for it brings a
  new endpoint and key, and the chain id \<^verbatim>\<open>"mainnet"\<close>.
\<close>

theorem overwrite_is_atomic_witness:
  "map_of (HANDLERS (stub_lib None signed_tx)) ''create_client'' =
     Some (handle_create_client (stub_lib None signed_tx)) \<and>
   contains rotate_params ''baseUrl'' \<and> contains rotate_params ''privateKey'' \<and>
   isl (int_param rotate_params ''chainId'') \<and>
   dict_get rotate_request ''method'' JNull = JStr ''create_client'' \<and>
   dict_get rotate_request ''params'' (JObj []) = rotate_params \<and>
   (\<exists>e. handle_create_client (stub_lib None signed_tx) rotate_params ready = (Inl e, ready) \<and>
        dispatch (stub_lib None signed_tx) (JObj rotate_request) ready =
          (Inr [(''id'', JStr ''r1''), (''error'', JStr (''exception:'' @ exc_str e))], ready))"
proof -
  let ?lib = "stub_lib None signed_tx"
  have h1: "map_of (HANDLERS ?lib) ''create_client'' = Some (handle_create_client ?lib)"
    by (simp add: HANDLERS_def)
  have h2: "contains rotate_params ''baseUrl''"
    by (simp add: contains_def rotate_params_def dict_has_def)
  have h3: "contains rotate_params ''privateKey''"
    by (simp add: contains_def rotate_params_def dict_has_def)
  have h4: "isl (int_param rotate_params ''chainId'')"
    by (simp add: int_param_def rotate_params_def parse_int_def strip_def is_space1_def
        is_space2_def is_space3_def is_digit_def)
  then have h4': "isl (int_param rotate_params ''chainId'') \<or>
      isl (int_param rotate_params ''accountIndex'')" ..
  have h5: "dict_get rotate_request ''method'' JNull = JStr ''create_client''"
    by (simp add: dict_get_def rotate_request_def)
  have h6: "dict_get rotate_request ''params'' (JObj []) = rotate_params"
    by (simp add: dict_get_def rotate_request_def)
  have h7: "dict_get rotate_request ''id'' JNull = JStr ''r1''"
    by (simp add: dict_get_def rotate_request_def)
  show ?thesis
    using overwrite_is_atomic [OF h1 h2 h3 h4' h5 h6, of ready] h1 h2 h3 h4 h5 h6 h7
    by simp
qed

subsection \<open>\<^verbatim>\<open>create_client\<close> twice\<close>

lemma lookup_config_overwrite:
  assumes "int_param params ''apiKeyIndex'' = Inr k"
      and "subscript params ''baseUrl'' = Inr b"
      and "subscript params ''privateKey'' = Inr p"
      and "int_param params ''chainId'' = Inr c"
      and "int_param params ''accountIndex'' = Inr a"
  shows "lookup_config params s =
     (Inr (k, Some \<lparr>baseUrl = b, privateKey = p, chainId = c, accountIndex = a\<rparr>),
      s\<lparr>CLIENT_CONFIG := (CLIENT_CONFIG s)
           (k \<mapsto> \<lparr>baseUrl = b, privateKey = p, chainId = c, accountIndex = a\<rparr>)\<rparr>)"
  using assms subscript_contains [OF assms(2)] subscript_contains [OF assms(3)]
  by (simp add: lookup_config_def new_config_def exc_bind_def)

lemma ensure_client_ok:
  assumes "int_param params ''apiKeyIndex'' = Inr k"
      and "subscript params ''baseUrl'' = Inr (JStr url)" and "utf8_wf url"
      and "subscript params ''privateKey'' = Inr (JStr key)" and "utf8_wf key"
      and "int_param params ''chainId'' = Inr c"
      and "int_param params ''accountIndex'' = Inr a"
      and "\<And>args f. \<not> truthy (fst (CreateClient lib args f))"
  shows "fst (ensure_client lib params s) = Inr [(''result'', JStr ''ok'')] \<and>
         CLIENT_CONFIG (snd (ensure_client lib params s)) =
           (CLIENT_CONFIG s)(k \<mapsto> \<lparr>baseUrl = JStr url, privateKey = JStr key,
                                      chainId = c, accountIndex = a\<rparr>) \<and>
         INITIALISED_KEYS (snd (ensure_client lib params s)) = insert k (INITIALISED_KEYS s) \<and>
         calls (snd (ensure_client lib params s)) =
           calls s @ [CallCreateClient (url, key, c_int c, c_int k, c_longlong a)]"
proof -
  let ?cfg = "\<lparr>baseUrl = JStr url, privateKey = JStr key, chainId = c, accountIndex = a\<rparr>"
  let ?s1 = "s\<lparr>CLIENT_CONFIG := (CLIENT_CONFIG s)(k \<mapsto> ?cfg)\<rparr>"
  let ?args = "(url, key, c_int c, c_int k, c_longlong a)"
  have l: "lookup_config params s = (Inr (k, Some ?cfg), ?s1)"
    using assms(1,2,4,6,7) by (rule lookup_config_overwrite)
  have a: "create_client_call ?cfg k = Inr ?args"
    using create_client_call_strings [of ?cfg url key k] assms(3,5) by simp
  obtain p f' where c: "CreateClient lib ?args (foreign ?s1) = (p, f')"
    by (cases "CreateClient lib ?args (foreign ?s1)")
  with assms(8) [of ?args "foreign ?s1"] have "\<not> truthy p" by simp
  with connect_Some [OF a c] l show ?thesis
    by (simp add: ensure_client_def)
qed

text \<open>
  Claim C8, as amended. For parameters with an integer-coercible \<^verbatim>\<open>apiKeyIndex\<close>,
  \<^verbatim>\<open>chainId\<close> and \<^verbatim>\<open>accountIndex\<close>, and with a \<^verbatim>\<open>baseUrl\<close> and a
  \<^verbatim>\<open>privateKey\<close> that are strings UTF-8 can encode, and a \<^verbatim>\<open>CreateClient\<close> that
  reports no error: \<^verbatim>\<open>create_client\<close> called twice returns \<^verbatim>\<open>{"result": "ok"}\<close> both
  times; the registry after the second call is the one after the first, which is the
  registry before with the one entry for the key written over; and the key is in
  \<^verbatim>\<open>_INITIALISED_KEYS\<close>.
\<close>

theorem create_client_twice:
  assumes "int_param params ''apiKeyIndex'' = Inr k"
      and "subscript params ''baseUrl'' = Inr (JStr url)" and "utf8_wf url"
      and "subscript params ''privateKey'' = Inr (JStr key)" and "utf8_wf key"
      and "int_param params ''chainId'' = Inr c"
      and "int_param params ''accountIndex'' = Inr a"
      and "\<And>args f. \<not> truthy (fst (CreateClient lib args f))"
      and "handle_create_client lib params s = (r1, s1)"
      and "handle_create_client lib params s1 = (r2, s2)"
  shows "r1 = Inr [(''result'', JStr ''ok'')] \<and> r2 = Inr [(''result'', JStr ''ok'')] \<and>
         CLIENT_CONFIG s2 =
           (CLIENT_CONFIG s)(k \<mapsto> \<lparr>baseUrl = JStr url, privateKey = JStr key,
                                      chainId = c, accountIndex = a\<rparr>) \<and>
         CLIENT_CONFIG s2 = CLIENT_CONFIG s1 \<and>
         dom (CLIENT_CONFIG s2) = insert k (dom (CLIENT_CONFIG s)) \<and>
         k \<in> INITIALISED_KEYS s2"
proof -
  note ok = ensure_client_ok [OF assms(1-8)]
  from ok [of s] assms(9) have 1: "r1 = Inr [(''result'', JStr ''ok'')]"
    and c1: "CLIENT_CONFIG s1 = (CLIENT_CONFIG s)(k \<mapsto> \<lparr>baseUrl = JStr url,
        privateKey = JStr key, chainId = c, accountIndex = a\<rparr>)"
    by (simp_all add: handle_create_client_def)
  from ok [of s1] assms(10) have 2: "r2 = Inr [(''result'', JStr ''ok'')]"
    and c2: "CLIENT_CONFIG s2 = (CLIENT_CONFIG s1)(k \<mapsto> \<lparr>baseUrl = JStr url,
        privateKey = JStr key, chainId = c, accountIndex = a\<rparr>)"
    and i2: "k \<in> INITIALISED_KEYS s2"
    by (simp_all add: handle_create_client_def)
  from c1 c2 have "CLIENT_CONFIG s2 = CLIENT_CONFIG s1" by simp
  with 1 2 c1 i2 show ?thesis by simp
qed

text \<open>The scenario of the specification, run twice from the initial state.\<close>

theorem create_client_twice_witness:
  "int_param client_params ''apiKeyIndex'' = Inr 0 \<and>
   subscript client_params ''baseUrl'' = Inr (JStr ''https://x'') \<and> utf8_wf ''https://x'' \<and>
   subscript client_params ''privateKey'' = Inr (JStr ''0xabc'') \<and> utf8_wf ''0xabc'' \<and>
   int_param client_params ''chainId'' = Inr 1 \<and>
   int_param client_params ''accountIndex'' = Inr 5 \<and>
   (\<forall>args f. \<not> truthy (fst (CreateClient (stub_lib None signed_tx) args f))) \<and>
   handle_create_client (stub_lib None signed_tx) client_params (initial ()) =
     (Inr [(''result'', JStr ''ok'')],
      ready\<lparr>calls := [CallCreateClient (''https://x'', ''0xabc'', 1, 0, 5)]\<rparr>) \<and>
   handle_create_client (stub_lib None signed_tx) client_params
       (ready\<lparr>calls := [CallCreateClient (''https://x'', ''0xabc'', 1, 0, 5)]\<rparr>) =
     (Inr [(''result'', JStr ''ok'')],
      ready\<lparr>calls := [CallCreateClient (''https://x'', ''0xabc'', 1, 0, 5),
                       CallCreateClient (''https://x'', ''0xabc'', 1, 0, 5)]\<rparr>) \<and>
   CLIENT_CONFIG ready =
     (CLIENT_CONFIG (initial ()))(0 \<mapsto> \<lparr>baseUrl = JStr ''https://x'',
        privateKey = JStr ''0xabc'', chainId = 1, accountIndex = 5\<rparr>) \<and>
   dom (CLIENT_CONFIG ready) = {0} \<and> 0 \<in> INITIALISED_KEYS ready"
proof -
  let ?lib = "stub_lib None signed_tx"
  let ?s1 = "ready\<lparr>calls := [CallCreateClient (''https://x'', ''0xabc'', 1, 0, 5)]\<rparr>"
  let ?s2 = "ready\<lparr>calls := [CallCreateClient (''https://x'', ''0xabc'', 1, 0, 5),
                       CallCreateClient (''https://x'', ''0xabc'', 1, 0, 5)]\<rparr>"
  have h1: "int_param client_params ''apiKeyIndex'' = Inr 0"
    by (simp add: int_param_def client_params_def)
  have h2: "subscript client_params ''baseUrl'' = Inr (JStr ''https://x'')"
    by (simp add: client_params_def)
  have h3: "utf8_wf ''https://x''" by (simp add: is_ascii_def)
  have h4: "subscript client_params ''privateKey'' = Inr (JStr ''0xabc'')"
    by (simp add: client_params_def)
  have h5: "utf8_wf ''0xabc''" by (simp add: is_ascii_def)
  have h6: "int_param client_params ''chainId'' = Inr 1"
    by (simp add: int_param_def client_params_def)
  have h7: "int_param client_params ''accountIndex'' = Inr 5"
    by (simp add: int_param_def client_params_def)
  have h8: "\<not> truthy (fst (CreateClient ?lib args f))" for args f
    by (simp add: stub_lib_def truthy_def)
  have h9: "handle_create_client ?lib client_params (initial ()) =
      (Inr [(''result'', JStr ''ok'')], ?s1)"
    by (simp add: run_defs ready_def)
  have h10: "handle_create_client ?lib client_params ?s1 = (Inr [(''result'', JStr ''ok'')], ?s2)"
    by (simp add: run_defs ready_def)
  show ?thesis
    using create_client_twice [OF h1 h2 h3 h4 h5 h6 h7 h8 h9 h10] h1 h2 h3 h4 h5 h6 h7 h8 h9 h10
    by (simp add: initial_def)
qed

text \<open>
  Claim C8 as the specification words it fails for parameters that contain a
  \<^verbatim>\<open>privateKey\<close> that is not a string (here the number 12345): both calls raise
  \<^verbatim>\<open>AttributeError\<close> at \<^verbatim>\<open>.encode\<close>, after the configuration was stored and before
  \<^verbatim>\<open>CreateClient\<close> is called.
\<close>

theorem create_client_twice_counterexample:
  "handle_create_client (stub_lib None signed_tx)
       (JObj [(''apiKeyIndex'', JInt 0), (''baseUrl'', JStr ''https://x''),
              (''privateKey'', JInt 12345), (''chainId'', JInt 1), (''accountIndex'', JInt 5)])
       (initial ()) =
     (Inl (AttributeError (quoted ''int'' @ '' object has no attribute '' @ quoted ''encode'')),
      \<lparr>CLIENT_CONFIG = [0 \<mapsto> \<lparr>baseUrl = JStr ''https://x'', privateKey = JInt 12345,
                               chainId = 1, accountIndex = 5\<rparr>],
       INITIALISED_KEYS = {}, foreign = (), calls = []\<rparr>) \<and>
   handle_create_client (stub_lib None signed_tx)
       (JObj [(''apiKeyIndex'', JInt 0), (''baseUrl'', JStr ''https://x''),
              (''privateKey'', JInt 12345), (''chainId'', JInt 1), (''accountIndex'', JInt 5)])
       \<lparr>CLIENT_CONFIG = [0 \<mapsto> \<lparr>baseUrl = JStr ''https://x'', privateKey = JInt 12345,
                               chainId = 1, accountIndex = 5\<rparr>],
        INITIALISED_KEYS = {}, foreign = (), calls = []\<rparr> =
     (Inl (AttributeError (quoted ''int'' @ '' object has no attribute '' @ quoted ''encode'')),
      \<lparr>CLIENT_CONFIG = [0 \<mapsto> \<lparr>baseUrl = JStr ''https://x'', privateKey = JInt 12345,
                               chainId = 1, accountIndex = 5\<rparr>],
       INITIALISED_KEYS = {}, foreign = (), calls = []\<rparr>)"
  by (simp add: run_defs)

section \<open>The dispatcher\<close>

subsection \<open>The fields of a response\<close>

lemma ensure_client_shape:
  assumes "ensure_client lib params s = (Inr d, s')"
  shows "map fst d = [''error''] \<or> d = [(''result'', JStr ''ok'')]"
  using assms
  by (auto simp: ensure_client_def lookup_config_def connect_def call_lib_def maybe_error_eq
      split: sum.splits option.splits prod.splits if_splits)

lemma ensure_client_keys:
  assumes "ensure_client lib params s = (Inr d, s')"
  shows "map fst d = [''error''] \<or> map fst d = [''result'']"
  using ensure_client_shape [OF assms] by auto

lemma unwrap_shape:
  assumes "unwrap r = Inr d"
  shows "map fst d = [''error''] \<or> map fst d = [''result''] \<or>
         map fst d = [''result'', ''txHash'', ''messageToSign'']"
  using assms
  by (cases r) (auto simp: unwrap_Simple unwrap_Composite simp del: unwrap.simps split: if_splits)

lemma privileged_shape:
  assumes "privileged lib arguments operation tag shape params s = (Inr d, s')"
  shows "map fst d = [''error''] \<or> map fst d = [''result''] \<or>
         map fst d = [''result'', ''txHash'', ''messageToSign'']"
proof (cases "ensure_client lib params s")
  case (Pair r s1)
  show ?thesis
  proof (cases r)
    case (Inl e)
    with Pair assms show ?thesis by (simp add: privileged_def)
  next
    case (Inr ensure)
    show ?thesis
    proof (cases "dict_has ensure ''error''")
      case True
      with Pair Inr assms have "d = ensure" by (simp add: privileged_def)
      with ensure_client_keys [of lib params s ensure s1] Pair Inr show ?thesis by auto
    next
      case False
      with Pair Inr assms obtain r' where "unwrap r' = Inr d"
        by (auto simp: privileged_def split: sum.splits prod.splits)
      then show ?thesis by (rule unwrap_shape)
    qed
  qed
qed

lemma handler_shape:
  assumes "map_of (HANDLERS lib) m = Some handler"
      and "handler params s = (Inr d, s')"
  shows "map fst d = [''error''] \<or> map fst d = [''result''] \<or>
         map fst d = [''result'', ''txHash'', ''messageToSign'']"
  using HANDLERS_cases [OF assms(1)] assms(2)
  by (auto simp: handle_create_client_def handle_sign_create_order_def
      handle_sign_cancel_order_def handle_sign_cancel_all_def handle_create_auth_token_def
      dest: privileged_shape ensure_client_keys)

lemma dict_has_keys: "dict_has d k = (k \<in> set (map fst d))"
  by (simp add: dict_has_def map_of_eq_None_iff)

lemma setdefault_shape:
  assumes "map fst d = [''error''] \<or> map fst d = [''result''] \<or>
         map fst d = [''result'', ''txHash'', ''messageToSign'']"
  shows "map fst (setdefault d ''id'' req_id) \<in> set response_keys"
proof -
  have "\<not> dict_has d ''id''"
    using assms by (auto simp: dict_has_keys)
  then show ?thesis
    using assms by (auto simp: setdefault_def response_keys_def)
qed

lemma HANDLERS_get_Some:
  "HANDLERS_get lib v = Inr (Some handler) \<Longrightarrow>
     \<exists>m. v = JStr m \<and> map_of (HANDLERS lib) m = Some handler"
  by (cases v) (simp_all add: HANDLERS_get_def)

lemma dispatch_shape:
  assumes "dispatch lib request s = (Inr response, s')"
  shows "map fst response \<in> set response_keys"
proof (cases request)
  case (JObj r)
  let ?req_id = "dict_get r ''id'' JNull"
  let ?meth = "dict_get r ''method'' JNull"
  let ?params = "dict_get r ''params'' (JObj [])"
  show ?thesis
  proof (cases "HANDLERS_get lib ?meth")
    case (Inl e)
    with assms JObj show ?thesis by (simp add: dispatch_JObj)
  next
    case (Inr h)
    show ?thesis
    proof (cases h)
      case None
      with assms JObj Inr show ?thesis
        by (auto simp: dispatch_JObj response_keys_def)
    next
      case (Some handler)
      from HANDLERS_get_Some Inr Some obtain m
        where m: "map_of (HANDLERS lib) m = Some handler" by blast
      show ?thesis
      proof (cases "handler ?params s")
        case (Pair out s1)
        show ?thesis
        proof (cases out)
          case (Inl exc)
          with assms JObj Inr Some Pair show ?thesis
            by (auto simp: dispatch_JObj response_keys_def)
        next
          case o: (Inr d)
          from handler_shape [OF m] Pair o
          have "map fst (setdefault d ''id'' ?req_id) \<in> set response_keys"
            by (intro setdefault_shape) auto
          with assms JObj Inr Some Pair o show ?thesis
            by (auto simp: dispatch_JObj)
        qed
      qed
    qed
  qed
qed (use assms in \<open>simp_all add: dispatch_def\<close>)

text \<open>
  Claim C3, as amended. Every response the dispatcher prints has the key \<^verbatim>\<open>id\<close>, and
  exactly one of the keys \<^verbatim>\<open>error\<close> and \<^verbatim>\<open>result\<close>. A response with \<^verbatim>\<open>error\<close> has
  no \<^verbatim>\<open>txHash\<close> and no \<^verbatim>\<open>messageToSign\<close>; a response with \<^verbatim>\<open>result\<close> has both of
  them or neither (a composite success carries \<^verbatim>\<open>result\<close>, \<^verbatim>\<open>txHash\<close> and
  \<^verbatim>\<open>messageToSign\<close> together).
\<close>

theorem response_fields:
  assumes "dispatch lib request s = (Inr response, s')"
  shows "map fst response \<in> set response_keys \<and>
         dict_has response ''id'' \<and>
         dict_has response ''error'' \<noteq> dict_has response ''result'' \<and>
         dict_has response ''txHash'' = dict_has response ''messageToSign'' \<and>
         (dict_has response ''error'' \<longrightarrow> \<not> dict_has response ''txHash'')"
  using dispatch_shape [OF assms]
  by (auto simp: response_keys_def dict_has_keys)

lemma run_cancel:
  "dispatch (stub_lib None signed_tx) cancel_request (initial ()) =
     (Inr cancel_response,
      ready\<lparr>calls := [CallCreateClient (''https://x'', ''0xabc'', 1, 0, 5),
                       CallSignCancelOrder (1, 1, 1, 0, 5)]\<rparr>)"
  by (simp add: run_defs cancel_request_def cancel_response_def ready_def)

theorem response_fields_witness:
  "dispatch (stub_lib None signed_tx) cancel_request (initial ()) =
     (Inr cancel_response,
      ready\<lparr>calls := [CallCreateClient (''https://x'', ''0xabc'', 1, 0, 5),
                       CallSignCancelOrder (1, 1, 1, 0, 5)]\<rparr>) \<and>
   map fst cancel_response = [''result'', ''txHash'', ''messageToSign'', ''id''] \<and>
   \<not> dict_has cancel_response ''error'' \<and> dict_has cancel_response ''result''"
  using response_fields [OF run_cancel] run_cancel
  by (simp add: cancel_response_def dict_has_def)

text \<open>
  Claim C3 as the specification words it fails for every composite success: the response
  to a \<^verbatim>\<open>sign_cancel_order\<close> has \<^verbatim>\<open>result\<close> and \<^verbatim>\<open>txHash\<close> at once, both set.
\<close>

theorem result_and_txHash_counterexample:
  "fst (dispatch (stub_lib None signed_tx) cancel_request (initial ())) = Inr cancel_response \<and>
   map_of cancel_response ''result'' = Some (JStr ''{}'') \<and>
   map_of cancel_response ''txHash'' = Some (JStr ''ab'') \<and>
   \<not> dict_has cancel_response ''error''"
  by (simp add: run_cancel cancel_response_def dict_has_def)

subsection \<open>Unknown methods, exceptions and the id\<close>

text \<open>
  A request that is a JSON object with a method that can be hashed (a string, a number,
  a boolean, \<^verbatim>\<open>null\<close>, or none at all) always gets a response, with its id. Any other
  parsed line raises outside the \<^verbatim>\<open>try\<close>: \<^verbatim>\<open>request.get\<close> when the line is not an
  object, \<^verbatim>\<open>HANDLERS.get\<close> when the method is a list or an object.
\<close>

lemma dispatch_crash:
  "isl (fst (dispatch lib request s)) =
     (case request of
        JObj r \<Rightarrow>
          (case dict_get r ''method'' JNull of JList _ \<Rightarrow> True | JObj _ \<Rightarrow> True | _ \<Rightarrow> False)
      | _ \<Rightarrow> True)"
  by (cases request)
     (auto simp: dispatch_def HANDLERS_get_def split: json.splits option.splits sum.splits prod.splits)

lemma dispatch_unknown_method:
  assumes "HANDLERS_get lib (dict_get r ''method'' JNull) = Inr None"
  shows "dispatch lib (JObj r) s =
     (Inr [(''id'', dict_get r ''id'' JNull),
           (''error'', JStr (''unknown_method:'' @ py_str (dict_get r ''method'' JNull)))], s)"
  using assms by (simp add: dispatch_JObj)

lemma dispatch_echoes_id:
  assumes "dispatch lib (JObj r) s = (Inr response, s')"
  shows "map_of response ''id'' = Some (dict_get r ''id'' JNull)"
proof (cases "HANDLERS_get lib (dict_get r ''method'' JNull)")
  case (Inl e)
  with assms show ?thesis by (simp add: dispatch_JObj)
next
  case (Inr h)
  show ?thesis
  proof (cases h)
    case None
    with assms Inr show ?thesis by (auto simp: dispatch_JObj)
  next
    case (Some handler)
    from HANDLERS_get_Some Inr Some obtain m
      where m: "map_of (HANDLERS lib) m = Some handler" by blast
    show ?thesis
    proof (cases "handler (dict_get r ''params'' (JObj [])) s")
      case (Pair out s1)
      show ?thesis
      proof (cases out)
        case (Inl exc)
        with assms Inr Some Pair show ?thesis by (auto simp: dispatch_JObj)
      next
        case o: (Inr d)
        from Pair o have "handler (dict_get r ''params'' (JObj [])) s = (Inr d, s1)"
          by simp
        from handler_shape [OF m this]
        have "\<not> dict_has d ''id''" by (auto simp: dict_has_keys)
        then have "map_of (setdefault d ''id'' (dict_get r ''id'' JNull)) ''id'' =
            Some (dict_get r ''id'' JNull)"
          by (simp add: setdefault_def dict_has_def map_add_def [symmetric] map_add_Some_iff)
        with assms Inr Some Pair o show ?thesis by (auto simp: dispatch_JObj)
      qed
    qed
  qed
qed

section \<open>The loop of \<^verbatim>\<open>main\<close>\<close>

lemmas strip_defs =
  strip_def is_space1_def is_space2_def is_space3_def blank_line_def dq_def
  line_list_method_def line_ping_def

text \<open>
  Claim C6, at two lines the loop does not survive. A request whose method is a list
  makes \<^verbatim>\<open>HANDLERS.get(method)\<close> raise \<^verbatim>\<open>TypeError\<close>, and a line that parses to a
  number makes \<^verbatim>\<open>request.get("id")\<close> raise \<^verbatim>\<open>AttributeError\<close>; both are outside the
  \<^verbatim>\<open>try\<close>. Nothing is printed for the line, and the next line, a well-formed request,
  is never read.
\<close>

theorem unhashable_method_ends_loop:
  "main (loads_of request_lines) (stub_lib None signed_tx)
       [line_list_method, line_ping] (initial ()) =
     ([], initial (), Some (TypeError (''unhashable type: '' @ quoted ''list''))) \<and>
   main (loads_of request_lines) (stub_lib None signed_tx)
       [''42'', line_ping] (initial ()) =
     ([], initial (),
      Some (AttributeError (quoted ''int'' @ '' object has no attribute '' @ quoted ''get'')))"
  by (simp add: strip_defs request_lines_def run_defs)



subsection \<open>Blank lines\<close>

text \<open>A line of ASCII white space is blank.\<close>

lemma lstrip_spaces: "\<forall>c\<in>set line. is_space1 c \<Longrightarrow> lstrip line = []"
  by (induction line rule: lstrip.induct) auto

lemma strip_spaces: "\<forall>c\<in>set line. is_space1 c \<Longrightarrow> strip line = []"
  by (simp add: strip_def lstrip_spaces)

lemma main_blank: "strip line = [] \<Longrightarrow> main loads lib (line # rest) s = main loads lib rest s"
  by simp

lemma main_count:
  "length (fst (main loads lib lines s)) \<le> length (filter (\<lambda>l. strip l \<noteq> []) lines)"
proof (induction lines arbitrary: s)
  case Nil
  show ?case by simp
next
  case (Cons line rest)
  show ?case
  proof (cases "strip line = []")
    case True
    with Cons [of s] show ?thesis by simp
  next
    case False
    show ?thesis
    proof (cases "loads (strip line)")
      case (Inl msg)
      with False Cons [of s] show ?thesis
        by (auto split: prod.splits)
    next
      case (Inr request)
      show ?thesis
      proof (cases "dispatch lib request s")
        case (Pair r s1)
        with False Inr Cons [of s1] show ?thesis
          by (cases r) (auto split: prod.splits)
      qed
    qed
  qed
qed

lemma main_count_eq:
  "snd (snd (main loads lib lines s)) = None \<Longrightarrow>
   length (fst (main loads lib lines s)) = length (filter (\<lambda>l. strip l \<noteq> []) lines)"
proof (induction lines arbitrary: s)
  case Nil
  show ?case by simp
next
  case (Cons line rest)
  show ?case
  proof (cases "strip line = []")
    case True
    with Cons.prems Cons.IH [of s] show ?thesis by simp
  next
    case False
    show ?thesis
    proof (cases "loads (strip line)")
      case (Inl msg)
      with False Cons.prems Cons.IH [of s] show ?thesis
        by (auto split: prod.splits)
    next
      case (Inr request)
      show ?thesis
      proof (cases "dispatch lib request s")
        case (Pair r s1)
        with False Inr Cons.prems Cons.IH [of s1] show ?thesis
          by (cases r) (auto split: prod.splits)
      qed
    qed
  qed
qed

text \<open>
  Claim C10. A line that \<^verbatim>\<open>strip()\<close> leaves empty (an empty line, or white space only)
  gets no response, changes nothing, and the loop goes on with the next line. Responses
  come from the other lines only, at most one for each; and exactly one for each when
  no exception ends the process.
\<close>

theorem blank_lines_are_skipped:
  "(strip line = [] \<longrightarrow>
      main loads lib (line # rest) s = main loads lib rest s \<and>
      main loads lib [line] s = ([], s, None)) \<and>
   length (fst (main loads lib lines s)) \<le> length (filter (\<lambda>l. strip l \<noteq> []) lines) \<and>
   (snd (snd (main loads lib lines s)) = None \<longrightarrow>
      length (fst (main loads lib lines s)) = length (filter (\<lambda>l. strip l \<noteq> []) lines))"
  using main_count [of loads lib lines s] main_count_eq [of loads lib lines s] by simp

theorem blank_lines_are_skipped_witness:
  "strip blank_line = [] \<and> strip [] = [] \<and>
   main (loads_of request_lines) (stub_lib None signed_tx)
       [blank_line, ('' '' @ line_ping @ '' ''), []] (initial ()) =
     ([[(''id'', JInt 8), (''error'', JStr ''unknown_method:ping'')]], initial (), None) \<and>
   main (loads_of request_lines) (stub_lib None signed_tx) [blank_line] (initial ()) =
     ([], initial (), None) \<and>
   length (filter (\<lambda>l. strip l \<noteq> []) [blank_line, ('' '' @ line_ping @ '' ''), []]) = 1"
proof -
  let ?loads = "loads_of request_lines" and ?lib = "stub_lib None signed_tx"
  let ?lines = "[blank_line, ('' '' @ line_ping @ '' ''), []]"
  have h1: "strip blank_line = []"
    by (simp add: strip_defs)
  have run: "main ?loads ?lib [('' '' @ line_ping @ '' ''), []] (initial ()) =
      ([[(''id'', JInt 8), (''error'', JStr ''unknown_method:ping'')]], initial (), None)"
    by (simp add: strip_defs request_lines_def run_defs)
  have h2: "snd (snd (main ?loads ?lib ?lines (initial ()))) = None"
    using h1 run by simp
  have n: "length (filter (\<lambda>l. strip l \<noteq> []) ?lines) = 1"
    by (simp add: strip_defs)
  show ?thesis
    using blank_lines_are_skipped [where line = blank_line and loads = ?loads and lib = ?lib
          and rest = "[('' '' @ line_ping @ '' ''), []]" and s = "initial ()"
          and lines = ?lines] h1 h2 run n
    by (simp add: strip_def)
qed

end
